theory Spec2Isabelle
  imports Complex_Main "HOL-Library.AList"
begin

section \<open>JavaScript values and strings\<close>

text \<open>
  A JavaScript string is a sequence of UTF-16 code units; \<open>js\<close> writes an ASCII literal.
  The Hindi texts of the source and the typographic apostrophes of its English texts are
  written out as code units.
\<close>

type_synonym jstring = "nat list"

abbreviation js :: "string \<Rightarrow> jstring" where
  "js s \<equiv> map of_char s"

text \<open>
  The values that \<open>JSON.parse\<close> yields and that the provider SDKs return as plain data.
  A number is kept as an exact rational (no \<open>NaN\<close>, no rounding): the code below only tests
  numbers for being zero and hands them to the runtime for printing. An object is an
  association list; the first binding of a key is its value.
\<close>

datatype jsval =
    JUndefined
  | JNull
  | JBool bool
  | JNum rat
  | JStr jstring
  | JArr "jsval list"
  | JObj "(jstring \<times> jsval) list"

text \<open>Truthiness, as \<open>!v\<close>, \<open>a || b\<close> and \<open>if (v)\<close> test it.\<close>

fun truthy :: "jsval \<Rightarrow> bool" where
  "truthy JUndefined = False"
| "truthy JNull = False"
| "truthy (JBool b) = b"
| "truthy (JNum q) = (q \<noteq> 0)"
| "truthy (JStr s) = (s \<noteq> [])"
| "truthy (JArr xs) = True"
| "truthy (JObj kvs) = True"

definition or_else :: "jsval \<Rightarrow> jsval \<Rightarrow> jsval" where
  \<comment> \<open>\<open>a || b\<close>\<close>
  "or_else a b = (if truthy a then a else b)"

text \<open>
  \<open>get v k\<close> is \<open>v?.k\<close> for a property name \<open>k\<close> that no prototype defines: the own
  property of an object, \<open>undefined\<close> on anything else. The fixed names read below are such
  names; so is the \<open>lang\<close> of a request unless it names a property of \<open>Object.prototype\<close>,
  and such requests are left out.
\<close>

fun get :: "jsval \<Rightarrow> jstring \<Rightarrow> jsval" where
  "get (JObj kvs) k = (case map_of kvs k of Some v \<Rightarrow> v | None \<Rightarrow> JUndefined)"
| "get v k = JUndefined"

text \<open>\<open>first v\<close> is \<open>v?.[0]\<close>.\<close>

fun first :: "jsval \<Rightarrow> jsval" where
  "first (JArr (x # xs)) = x"
| "first (JObj kvs) = get (JObj kvs) (js ''0'')"
| "first (JStr (c # cs)) = JStr [c]"
| "first v = JUndefined"

fun isArray :: "jsval \<Rightarrow> bool" where
  "isArray (JArr xs) = True"
| "isArray v = False"

fun elements :: "jsval \<Rightarrow> jsval list" where
  \<comment> \<open>the elements of an array\<close>
  "elements (JArr xs) = xs"
| "elements v = []"

text \<open>White space and line terminators: what \<open>\s\<close> matches and \<open>trim\<close> removes.\<close>

definition is_space :: "nat \<Rightarrow> bool" where
  "is_space c \<longleftrightarrow>
     c \<in> set [9, 10, 11, 12, 13, 32, 160, 5760, 8232, 8233, 8239, 8287, 12288, 65279]
     \<or> (8192 \<le> c \<and> c \<le> 8202)"

text \<open>What \<open>\w\<close> matches: letters, digits and the underscore of ASCII.\<close>

definition is_word :: "nat \<Rightarrow> bool" where
  "is_word c \<longleftrightarrow> (65 \<le> c \<and> c \<le> 90) \<or> (97 \<le> c \<and> c \<le> 122) \<or> (48 \<le> c \<and> c \<le> 57) \<or> c = 95"

definition trim :: "jstring \<Rightarrow> jstring" where
  "trim s = rev (dropWhile is_space (rev (dropWhile is_space s)))"

fun str_includes :: "jstring \<Rightarrow> jstring \<Rightarrow> bool" where
  "str_includes [] t = (t = [])"
| "str_includes (c # cs) t = (take (length t) (c # cs) = t \<or> str_includes cs t)"

text \<open>
  The builtins of the runtime that are not fixed here: \<open>JSON.parse\<close> (\<open>None\<close> when it
  throws), \<open>String.prototype.toLowerCase\<close> and the conversion of a number to a string.
  Every theorem below holds for each runtime.
\<close>

record runtime =
  JSON_parse :: "jstring \<Rightarrow> jsval option"
  toLowerCase :: "jstring \<Rightarrow> jstring"
  Number_toString :: "rat \<Rightarrow> jstring"

text \<open>Decimal digits of a natural number and of an integer.\<close>

function show_nat :: "nat \<Rightarrow> jstring" where
  "show_nat n = (if n < 10 then [48 + n] else show_nat (n div 10) @ [48 + n mod 10])"
  by pat_completeness auto
termination
  by (relation "measure id") auto

declare show_nat.simps [simp del]

definition show_int :: "int \<Rightarrow> jstring" where
  "show_int i = (if i < 0 then 45 # show_nat (nat (- i)) else show_nat (nat i))"

text \<open>
  \<open>element v i\<close> is \<open>v?.[i]\<close> for an integer \<open>i\<close>: an element of an array, a character of a
  string, the property of an object whose name is the decimal numeral.
\<close>

fun element :: "jsval \<Rightarrow> int \<Rightarrow> jsval" where
  "element (JArr xs) i = (if 0 \<le> i \<and> i < int (length xs) then xs ! nat i else JUndefined)"
| "element (JStr s) i = (if 0 \<le> i \<and> i < int (length s) then JStr [s ! nat i] else JUndefined)"
| "element (JObj kvs) i = get (JObj kvs) (show_int i)"
| "element v i = JUndefined"

text \<open>\<open>String(v)\<close> and \<open>${v}\<close>: the conversion of a value to a string.\<close>

fun join :: "jstring \<Rightarrow> jstring list \<Rightarrow> jstring" where
  "join sep [] = []"
| "join sep [x] = x"
| "join sep (x # y # ys) = x @ sep @ join sep (y # ys)"

fun toStr :: "runtime \<Rightarrow> jsval \<Rightarrow> jstring" where
  "toStr rt JUndefined = js ''undefined''"
| "toStr rt JNull = js ''null''"
| "toStr rt (JBool b) = (if b then js ''true'' else js ''false'')"
| "toStr rt (JNum q) = Number_toString rt q"
| "toStr rt (JStr s) = s"
| "toStr rt (JArr xs) =
     join [44] (map (\<lambda>x. if x = JUndefined \<or> x = JNull then [] else toStr rt x) xs)"
| "toStr rt (JObj kvs) = js ''[object Object]''"

section \<open>A runtime for the examples\<close>

text \<open>
  The examples below run on \<open>example_runtime\<close>: a recursive-descent reader of the JSON
  grammar (white space, literals, strings with their escapes, numbers, arrays, objects; the
  last binding of a repeated key stays), the lower-casing of the ASCII letters, which is
  \<open>toLowerCase\<close> on ASCII text, and the decimal digits of a number, which is its
  conversion to a string for the integers and the short decimal fractions of the usual
  range. The reader counts down a fuel that starts at twice the length of the text, more
  than its nesting and its commas can use.
\<close>

definition skip_ws :: "jstring \<Rightarrow> jstring" where
  "skip_ws s = dropWhile (\<lambda>c. c = 32 \<or> c = 9 \<or> c = 10 \<or> c = 13) s"

definition is_digit :: "nat \<Rightarrow> bool" where
  "is_digit c \<longleftrightarrow> 48 \<le> c \<and> c \<le> 57"

definition hex_digit :: "nat \<Rightarrow> nat option" where
  "hex_digit c =
     (if 48 \<le> c \<and> c \<le> 57 then Some (c - 48)
      else if 97 \<le> c \<and> c \<le> 102 then Some (c - 87)
      else if 65 \<le> c \<and> c \<le> 70 then Some (c - 55)
      else None)"

definition escape_char :: "nat \<Rightarrow> nat option" where
  \<comment> \<open>the character after a backslash: \<open>" \ / b f n r t\<close>\<close>
  "escape_char e =
     (if e = 34 \<or> e = 92 \<or> e = 47 then Some e
      else if e = 98 then Some 8
      else if e = 102 then Some 12
      else if e = 110 then Some 10
      else if e = 114 then Some 13
      else if e = 116 then Some 9
      else None)"

fun string_chars :: "jstring \<Rightarrow> jstring \<Rightarrow> (jstring \<times> jstring) option" where
  "string_chars acc [] = None"
| "string_chars acc [c] = (if c = 34 then Some (rev acc, []) else None)"
| "string_chars acc (c # e # es) =
     (if c = 34 then Some (rev acc, e # es)
      else if c < 32 then None
      else if c \<noteq> 92 then string_chars (c # acc) (e # es)
      else if e = 117 then
        (case map hex_digit (take 4 es) of
           [Some a, Some b, Some c, Some d] \<Rightarrow>
             string_chars ((((a * 16 + b) * 16 + c) * 16 + d) # acc) (drop 4 es)
         | _ \<Rightarrow> None)
      else (case escape_char e of
              Some x \<Rightarrow> string_chars (x # acc) es
            | None \<Rightarrow> None))"

definition decimal :: "jstring \<Rightarrow> nat" where
  "decimal ds = foldl (\<lambda>n c. 10 * n + (c - 48)) 0 ds"

definition number :: "jstring \<Rightarrow> (rat \<times> jstring) option" where
  "number s =
     (let neg = (take 1 s = [45]);
          s1 = (if neg then drop 1 s else s);
          ip = takeWhile is_digit s1;
          s2 = dropWhile is_digit s1;
          has_frac = (take 1 s2 = [46]);
          fp = (if has_frac then takeWhile is_digit (drop 1 s2) else []);
          s3 = (if has_frac then dropWhile is_digit (drop 1 s2) else s2);
          has_exp = (take 1 s3 = [101] \<or> take 1 s3 = [69]);
          s4 = drop 1 s3;
          eneg = (take 1 s4 = [45]);
          s5 = (if take 1 s4 = [45] \<or> take 1 s4 = [43] then drop 1 s4 else s4);
          ep = (if has_exp then takeWhile is_digit s5 else []);
          s6 = (if has_exp then dropWhile is_digit s5 else s3);
          m = of_nat (decimal (ip @ fp)) / of_nat (10 ^ length fp);
          v = (if eneg then m / of_nat (10 ^ decimal ep) else m * of_nat (10 ^ decimal ep))
      in if ip = [] \<or> (1 < length ip \<and> take 1 ip = [48]) \<or> (has_frac \<and> fp = [])
            \<or> (has_exp \<and> ep = [])
         then None
         else Some (if neg then - v else v, s6))"

fun parse_value :: "nat \<Rightarrow> jstring \<Rightarrow> (jsval \<times> jstring) option"
  and parse_elements :: "nat \<Rightarrow> jstring \<Rightarrow> (jsval list \<times> jstring) option"
  and parse_members :: "nat \<Rightarrow> jstring \<Rightarrow> ((jstring \<times> jsval) list \<times> jstring) option" where
  "parse_value 0 cs = None"
| "parse_value (Suc n) cs =
     (let s = skip_ws cs in
      if take 4 s = js ''null'' then Some (JNull, drop 4 s)
      else if take 4 s = js ''true'' then Some (JBool True, drop 4 s)
      else if take 5 s = js ''false'' then Some (JBool False, drop 5 s)
      else if take 1 s = [34] then
        (case string_chars [] (drop 1 s) of
           None \<Rightarrow> None
         | Some (t, r) \<Rightarrow> Some (JStr t, r))
      else if take 1 s = [91] then
        (if take 1 (skip_ws (drop 1 s)) = [93] then Some (JArr [], drop 1 (skip_ws (drop 1 s)))
         else (case parse_elements n (drop 1 s) of
                 None \<Rightarrow> None
               | Some (vs, r) \<Rightarrow> Some (JArr vs, r)))
      else if take 1 s = [123] then
        (if take 1 (skip_ws (drop 1 s)) = [125] then Some (JObj [], drop 1 (skip_ws (drop 1 s)))
         else (case parse_members n (drop 1 s) of
                 None \<Rightarrow> None
               | Some (kvs, r) \<Rightarrow>
                   Some (JObj (foldl (\<lambda>m (k, v). AList.update k v m) [] kvs), r)))
      else (case number s of
              None \<Rightarrow> None
            | Some (q, r) \<Rightarrow> Some (JNum q, r)))"
| "parse_elements 0 cs = None"
| "parse_elements (Suc n) cs =
     (case parse_value n cs of
        None \<Rightarrow> None
      | Some (v, r) \<Rightarrow>
          if take 1 (skip_ws r) = [44] then
            (case parse_elements n (drop 1 (skip_ws r)) of
               None \<Rightarrow> None
             | Some (vs, r') \<Rightarrow> Some (v # vs, r'))
          else if take 1 (skip_ws r) = [93] then Some ([v], drop 1 (skip_ws r))
          else None)"
| "parse_members 0 cs = None"
| "parse_members (Suc n) cs =
     (if take 1 (skip_ws cs) \<noteq> [34] then None
      else (case string_chars [] (drop 1 (skip_ws cs)) of
        None \<Rightarrow> None
      | Some (k, r) \<Rightarrow>
          if take 1 (skip_ws r) \<noteq> [58] then None
          else (case parse_value n (drop 1 (skip_ws r)) of
            None \<Rightarrow> None
          | Some (v, r') \<Rightarrow>
              if take 1 (skip_ws r') = [44] then
                (case parse_members n (drop 1 (skip_ws r')) of
                   None \<Rightarrow> None
                 | Some (kvs, r'') \<Rightarrow> Some ((k, v) # kvs, r''))
              else if take 1 (skip_ws r') = [125] then Some ([(k, v)], drop 1 (skip_ws r'))
              else None)))"

definition parse_json :: "jstring \<Rightarrow> jsval option" where
  "parse_json s =
     (case parse_value (2 * length s + 2) s of
        None \<Rightarrow> None
      | Some (v, r) \<Rightarrow> if skip_ws r = [] then Some v else None)"

definition ascii_lower :: "jstring \<Rightarrow> jstring" where
  "ascii_lower s = map (\<lambda>c. if 65 \<le> c \<and> c \<le> 90 then c + 32 else c) s"

fun fraction :: "nat \<Rightarrow> nat \<Rightarrow> nat \<Rightarrow> jstring" where
  "fraction 0 r d = []"
| "fraction (Suc k) r d =
     (if r = 0 then [] else (48 + (10 * r) div d) # fraction k ((10 * r) mod d) d)"

definition show_rat :: "rat \<Rightarrow> jstring" where
  "show_rat q =
     (let n = fst (quotient_of q); d = nat (snd (quotient_of q)); a = nat \<bar>n\<bar> in
      (if n < 0 then [45] else []) @ show_nat (a div d)
      @ (if a mod d = 0 then [] else 46 # fraction 17 (a mod d) d))"

definition example_runtime :: runtime where
  "example_runtime =
     \<lparr>JSON_parse = parse_json, toLowerCase = ascii_lower, Number_toString = show_rat\<rparr>"

section \<open>server.js: reply extraction\<close>

definition backtick :: nat where
  "backtick = 96"

definition fenced3 :: "jstring \<Rightarrow> bool" where
  \<comment> \<open>\<open>/^```[\s\S]*```$/.test(out)\<close>\<close>
  "fenced3 out \<longleftrightarrow>
     6 \<le> length out \<and> take 3 out = replicate 3 backtick
     \<and> drop (length out - 3) out = replicate 3 backtick"

definition unfence3 :: "jstring \<Rightarrow> jstring" where
  \<comment> \<open>\<open>out.replace(/^```(?:\w+)?\s*([\s\S]*?)\s*```$/, '$1')\<close> on a string that passes
      \<open>fenced3\<close>: the greedy \<open>\w+\<close> and \<open>\s*\<close> take the longest runs, the lazy group stops
      before the last run of white space.\<close>
  "unfence3 out =
     (let mid = take (length out - 6) (drop 3 out);
          r = dropWhile is_space (dropWhile is_word mid)
      in rev (dropWhile is_space (rev r)))"

definition unfence1 :: "jstring \<Rightarrow> jstring" where
  \<comment> \<open>\<open>out.replace(/^`(.*)`$/s, '$1')\<close>\<close>
  "unfence1 out =
     (if 2 \<le> length out \<and> take 1 out = [backtick] \<and> drop (length out - 1) out = [backtick]
      then take (length out - 2) (drop 1 out) else out)"

definition strip_fences :: "jstring \<Rightarrow> jstring" where
  "strip_fences s =
     (let out = trim s;
          out = (if fenced3 out then unfence3 out else out);
          out = unfence1 out
      in trim out)"

definition stripCodeFences :: "jsval \<Rightarrow> jsval" where
  "stripCodeFences s =
     (case s of
        JStr t \<Rightarrow> if t = [] then JStr [] else JStr (strip_fences t)
      | _ \<Rightarrow> or_else s (JStr []))"

definition parseJsonSafe :: "runtime \<Rightarrow> jsval \<Rightarrow> jsval" where
  "parseJsonSafe rt s =
     (case s of
        JStr t \<Rightarrow>
          if t = [] then JNull
          else (case JSON_parse rt t of Some v \<Rightarrow> v | None \<Rightarrow> JNull)
      | _ \<Rightarrow> JNull)"

definition safeText :: "jsval \<Rightarrow> jsval" where
  "safeText v = (case v of JStr t \<Rightarrow> JStr t | _ \<Rightarrow> JStr [])"

definition gemini_text :: "jsval \<Rightarrow> jsval" where
  \<comment> \<open>\<open>j?.response?.candidates?.[0]?.content?.parts?.[0]?.text\<close>\<close>
  "gemini_text j =
     get (first (get (get (first (get (get j (js ''response'')) (js ''candidates'')))
       (js ''content'')) (js ''parts''))) (js ''text'')"

definition openai_content :: "jsval \<Rightarrow> jsval" where
  \<comment> \<open>\<open>j.choices[0]?.message?.content\<close>\<close>
  "openai_content j = get (get (first (get j (js ''choices''))) (js ''message'')) (js ''content'')"

definition extractReplyFromProviderObj :: "runtime \<Rightarrow> jsval \<Rightarrow> jsval" where
  "extractReplyFromProviderObj rt j =
     (if \<not> truthy j then JNull
      else if truthy (gemini_text j) then
        (let text = stripCodeFences (gemini_text j);
             parsed = parseJsonSafe rt text
         in if truthy parsed then safeText (or_else (get parsed (js ''text'')) text) else text)
      else if isArray (get j (js ''choices'')) \<and> truthy (openai_content j) then
        stripCodeFences (openai_content j)
      else JNull)"

section \<open>server.js: the /api/chat handler\<close>

record response =
  status :: nat
  body :: jsval

definition json :: "jsval \<Rightarrow> response" where
  \<comment> \<open>\<open>res.json(b)\<close>: status 200\<close>
  "json b = \<lparr>status = 200, body = b\<rparr>"

definition fallbackHelplines :: jsval where
  "fallbackHelplines = JObj
     [(js ''en'', JArr
        [JObj [(js ''name'', JStr (js ''AASRA'')), (js ''phone'', JStr (js ''+91-9820466726''))],
         JObj [(js ''name'', JStr (js ''NIMHANS'')), (js ''phone'', JStr (js ''080-46110007''))]]),
      (js ''hi'', JArr
        [JObj [(js ''name'', JStr (js ''AASRA'')), (js ''phone'', JStr (js ''+91-9820466726''))],
         JObj [(js ''name'', JStr [2344, 2367, 2350, 2361, 2366, 2306, 2360]),
               (js ''phone'', JStr (js ''080-46110007''))]])]"

definition empty_reply_text :: "jstring \<Rightarrow> jstring" where
  "empty_reply_text lang =
     (if lang = js ''hi''
      then [2325, 2381, 2359, 2350, 2366, 32, 2325, 2352, 2375, 2306, 44, 32, 2350, 2376, 2306,
            32, 2309, 2349, 2368, 32, 2332, 2357, 2366, 2348, 32, 2344, 2361, 2368, 2306, 32,
            2342, 2375, 32, 2346, 2366, 2351, 2366, 2404, 32, 2310, 2346, 32, 2325, 2376, 2360,
            2366, 32, 2350, 2361, 2360, 2370, 2360, 32, 2325, 2352, 32, 2352, 2361, 2375, 32,
            2361, 2376, 2306, 63]
      else js ''Sorry, I couldn'' @ [8217] @ js ''t generate a response. How are you feeling?'')"

definition crisis_text :: "jstring \<Rightarrow> jstring" where
  "crisis_text lang =
     (if lang = js ''hi''
      then [2310, 2346, 32, 2309, 2325, 2375, 2354, 2375, 32, 2344, 2361, 2368, 2306, 32, 2361,
            2376, 2306, 44, 32, 2324, 2352, 32, 2350, 2376, 2306, 32, 2310, 2346, 2325, 2368, 32,
            2350, 2342, 2342, 32, 2325, 2375, 32, 2354, 2367, 2319, 32, 2361, 2370, 2305, 2404,
            32, 2325, 2371, 2346, 2351, 2366, 32, 2325, 2367, 2360, 2368, 32, 2360, 2375, 32,
            2360, 2306, 2346, 2352, 2381, 2325, 32, 2325, 2352, 2375, 2306, 32, 2332, 2379, 32,
            2310, 2346, 2325, 2366, 32, 2360, 2350, 2352, 2381, 2341, 2344, 32, 2325, 2352, 32,
            2360, 2325, 2375, 2404]
      else js ''You'' @ [8217] @ js ''re not alone, and I'' @ [8217]
           @ js ''m here to help. Please reach out to someone who can support you.'')"

definition server_error_text :: "jstring \<Rightarrow> jstring" where
  "server_error_text lang =
     (if lang = js ''hi''
      then [2325, 2381, 2359, 2350, 2366, 32, 2325, 2352, 2375, 2306, 44, 32, 2360, 2352, 2381,
            2357, 2352, 32, 2350, 2375, 2306, 32, 2340, 2381, 2352, 2369, 2335, 2367, 32, 2361,
            2369, 2312, 2404, 32, 2325, 2371, 2346, 2351, 2366, 32, 2347, 2367, 2352, 32, 2360,
            2375, 32, 2325, 2379, 2358, 2367, 2358, 32, 2325, 2352, 2375, 2306, 2404]
      else js ''Sorry, a server error occurred. Please try again.'')"

definition empty_reply :: "jstring \<Rightarrow> jsval" where
  "empty_reply lang = JObj
     [(js ''type'', JStr (js ''reply'')),
      (js ''text'', JStr (empty_reply_text lang)),
      (js ''request_photo'', JBool False)]"

definition crisis_reply :: "jstring \<Rightarrow> jsval" where
  "crisis_reply lang = JObj
     [(js ''type'', JStr (js ''crisis'')),
      (js ''text'', JStr (crisis_text lang)),
      (js ''helplines'', get fallbackHelplines lang)]"

definition server_error_reply :: "jstring \<Rightarrow> jsval" where
  "server_error_reply lang = JObj
     [(js ''type'', JStr (js ''reply'')),
      (js ''text'', JStr (server_error_text lang)),
      (js ''request_photo'', JBool False)]"

definition triggers :: "jstring list" where
  "triggers = [js ''suicide'', js ''kill myself'', js ''end my life'', js ''hopeless'', js ''want to die'']"

text \<open>
  The body of the \<open>try\<close> block from the extraction on (lines 129 to 159), for a request with
  a string \<open>message\<close>. \<open>Some r\<close>: the handler returns \<open>r\<close>. \<open>None\<close>: an exception is thrown,
  which happens when the extracted reply is neither falsy nor a string, so that
  \<open>replyText.trim\<close> is not a function.
\<close>

definition process_result :: "runtime \<Rightarrow> jstring \<Rightarrow> jstring \<Rightarrow> jsval \<Rightarrow> response option" where
  "process_result rt lang message result =
     (let replyText = extractReplyFromProviderObj rt result in
      if \<not> truthy replyText then Some (json (empty_reply lang))
      else (case replyText of
        JStr t \<Rightarrow>
          if trim t = [] then Some (json (empty_reply lang))
          else
            (let parsed = parseJsonSafe rt replyText in
             if get parsed (js ''type'') = JStr (js ''crisis'') then
               Some (json (JObj
                 [(js ''type'', JStr (js ''crisis'')),
                  (js ''text'', get parsed (js ''text'')),
                  (js ''helplines'',
                     or_else (get parsed (js ''helplines'')) (get fallbackHelplines lang))]))
             else
               (let lower = toLowerCase rt message in
                if list_ex (\<lambda>t. str_includes lower t) triggers then Some (json (crisis_reply lang))
                else Some (json (JObj
                  [(js ''type'', JStr (js ''reply'')),
                   (js ''text'', JStr (trim t)),
                   (js ''request_photo'',
                      or_else (get parsed (js ''request_photo'')) (JBool False))]))))
      | _ \<Rightarrow> None))"

text \<open>
  What one attempt meets between the start of the \<open>try\<close> block and the extraction
  (lines 115 to 127): building the request and awaiting the provider either throws (an
  \<open>Error\<close> object, so that \<open>err.message\<close> in the \<open>catch\<close> block is defined) or yields
  the provider's result object.
\<close>

datatype outcome = Throws | Returns jsval

definition maxAttempts :: nat where
  "maxAttempts = 3"

definition backoff :: "nat \<Rightarrow> nat" where
  "backoff attempt = min (1000 * 2 ^ (attempt - 1)) 60000"

text \<open>
  A run of the handler: the response sent, the number of attempts started and the
  \<open>sleep\<close> calls made, in order, in milliseconds.
\<close>

record chat_run =
  sent :: response
  attempts :: nat
  slept :: "nat list"

definition try_attempt :: "runtime \<Rightarrow> (nat \<Rightarrow> outcome) \<Rightarrow> jstring \<Rightarrow> jstring \<Rightarrow> nat \<Rightarrow> response option" where
  "try_attempt rt call lang message attempt =
     (case call attempt of
        Throws \<Rightarrow> None
      | Returns result \<Rightarrow> process_result rt lang message result)"

function chat_loop ::
  "runtime \<Rightarrow> (nat \<Rightarrow> outcome) \<Rightarrow> jstring \<Rightarrow> jstring \<Rightarrow> nat \<Rightarrow> nat list \<Rightarrow> chat_run" where
  "chat_loop rt call lang message attempt zs =
     (if attempt \<le> maxAttempts then
        (case try_attempt rt call lang message attempt of
           Some r \<Rightarrow> \<lparr>sent = r, attempts = attempt, slept = zs\<rparr>
         | None \<Rightarrow>
             if attempt \<ge> maxAttempts then
               \<lparr>sent = json (server_error_reply lang), attempts = attempt, slept = zs\<rparr>
             else chat_loop rt call lang message (attempt + 1) (zs @ [backoff attempt]))
      else
        \<lparr>sent = \<lparr>status = 429, body = JObj [(js ''error'', JStr (js ''Quota exceeded''))]\<rparr>,
         attempts = attempt - 1, slept = zs\<rparr>)"
  by pat_completeness auto
termination
  by (relation "measure (\<lambda>(rt, call, lang, message, attempt, zs). Suc maxAttempts - attempt)") auto

declare chat_loop.simps [simp del]

text \<open>\<open>process.env\<close>: a variable is a string or absent.\<close>

record environment =
  LLM_PROVIDER :: "jstring option"
  GOOGLE_API_KEY :: "jstring option"
  OPENAI_API_KEY :: "jstring option"

definition env_set :: "jstring option \<Rightarrow> bool" where
  \<comment> \<open>truthiness of \<open>process.env.X\<close>\<close>
  "env_set v = (case v of Some s \<Rightarrow> s \<noteq> [] | None \<Rightarrow> False)"

definition provider :: "environment \<Rightarrow> jstring" where
  \<comment> \<open>\<open>process.env.LLM_PROVIDER || 'google'\<close>\<close>
  "provider env = (case LLM_PROVIDER env of Some s \<Rightarrow> if s \<noteq> [] then s else js ''google'' | None \<Rightarrow> js ''google'')"

datatype sdk_client = Gemini | OpenAI

definition select_client :: "environment \<Rightarrow> sdk_client option" where
  "select_client env =
     (if provider env = js ''google'' \<and> env_set (GOOGLE_API_KEY env) then Some Gemini
      else if provider env = js ''openai'' \<and> env_set (OPENAI_API_KEY env) then Some OpenAI
      else None)"

text \<open>
  The handler, for a request body with a string \<open>message\<close> and a \<open>lang\<close> that is a string
  or absent (\<open>lang = 'en'\<close> is the default of the destructuring).
\<close>

definition lang_of :: "jstring option \<Rightarrow> jstring" where
  "lang_of lang_field = (case lang_field of Some l \<Rightarrow> l | None \<Rightarrow> js ''en'')"

definition chat ::
  "runtime \<Rightarrow> environment \<Rightarrow> (nat \<Rightarrow> outcome) \<Rightarrow> jstring option \<Rightarrow> jstring \<Rightarrow> chat_run" where
  "chat rt env call lang_field message =
     (let lang = lang_of lang_field in
      case select_client env of
        None \<Rightarrow>
          \<lparr>sent = \<lparr>status = 500,
                    body = JObj [(js ''error'', JStr (js ''Missing API credentials for selected provider''))]\<rparr>,
           attempts = 0, slept = []\<rparr>
      | Some c \<Rightarrow> chat_loop rt call lang message 1 [])"

section \<open>server.js: the /api/analyze handler\<close>

text \<open>
  What the \<open>try\<close> block meets: an exception before a response arrives (the upstream
  service cannot be reached, or building the form throws), or a response with its HTTP
  status and its body as JSON (\<open>None\<close> when \<open>pyRes.json()\<close> rejects).
\<close>

datatype upstream = Unreachable | Responded nat "jsval option"

definition response_ok :: "nat \<Rightarrow> bool" where
  \<comment> \<open>the \<open>ok\<close> flag of a fetch response\<close>
  "response_ok st \<longleftrightarrow> 200 \<le> st \<and> st \<le> 299"

definition spread :: "jsval \<Rightarrow> (jstring \<times> jsval) list" where
  \<comment> \<open>the own enumerable properties that \<open>...data\<close> copies\<close>
  "spread data =
     (case data of
        JObj kvs \<Rightarrow> kvs
      | JArr xs \<Rightarrow> zip (map show_nat [0..<length xs]) xs
      | JStr t \<Rightarrow> zip (map show_nat [0..<length t]) (map (\<lambda>c. JStr [c]) t)
      | _ \<Rightarrow> [])"

definition fallback_analysis :: "jstring \<Rightarrow> jsval" where
  "fallback_analysis lang = JObj
     [(js ''type'', JStr (js ''analysis'')),
      (js ''summary'', JStr
         (if lang = js ''hi''
          then [2337, 2375, 2350, 2379, 58, 32, 2309, 2330, 2381, 2331, 2366, 32, 2346, 2379,
                2360, 2381, 2335, 2352, 2404]
          else js ''Demo: Good posture.'')),
      (js ''recommendations'', JArr
         [JStr (if lang = js ''hi''
                then [2360, 2368, 2343, 2375, 32, 2352, 2361, 2375, 2306, 33]
                else js ''Keep going!'')]),
      (js ''notes'', JStr (js ''Python server offline or unreachable.''))]"

text \<open>
  The handler, given whether multer attached a file. In \<open>{ type: 'analysis', ...data }\<close> a
  \<open>type\<close> of \<open>data\<close> replaces the literal one, so the literal binding comes last.
\<close>

definition analyze :: "bool \<Rightarrow> jstring option \<Rightarrow> upstream \<Rightarrow> response" where
  "analyze has_file lang_field up =
     (if \<not> has_file then \<lparr>status = 400, body = JObj [(js ''error'', JStr (js ''No image''))]\<rparr>
      else (case up of
        Unreachable \<Rightarrow> json (fallback_analysis (lang_of lang_field))
      | Responded st b \<Rightarrow>
          if \<not> response_ok st then json (fallback_analysis (lang_of lang_field))
          else (case b of
            None \<Rightarrow> json (fallback_analysis (lang_of lang_field))
          | Some data \<Rightarrow> json (JObj (spread data @ [(js ''type'', JStr (js ''analysis''))])))))"

section \<open>chat.js: the client\<close>

text \<open>
  The page's state: the transcript, the exercise in progress, the language, and the
  elements of the page that the code tests for (\<open>langSelect\<close> holds the value of the
  language selector when the page has one). \<open>ui\<close> records, in order, what the code puts
  on the page: bubbles by their text, a step by its header, its value and the index its
  three buttons capture, the crisis box by its helplines. Speech, scrolling and the typing
  indicator are not recorded.
\<close>

record turn =
  role :: jstring
  parts :: jsval

record exercise =
  analysis :: jsval
  currentStep :: int
  totalSteps :: int

datatype ui =
    UserBubble jstring
  | BotBubble jstring
  | StepHeader jstring
  | StepCard jsval
  | StepControls int bool bool
  | CrisisShown "jsval list"
  | CrisisHidden

record client =
  chatHistory :: "turn list"
  exerciseState :: "exercise option"
  selectedLang :: jstring
  langSelect :: "jstring option"
  msgContainer :: bool
  crisisBox :: bool
  crisisNumbers :: bool
  ui :: "ui list"

text \<open>A call either completes or throws; both leave a state behind.\<close>

datatype run = Done client | Thrown client

definition and_then :: "run \<Rightarrow> (client \<Rightarrow> run) \<Rightarrow> run" where
  "and_then r f = (case r of Done c \<Rightarrow> f c | Thrown c \<Rightarrow> Thrown c)"

definition appendUserBubble :: "jstring \<Rightarrow> client \<Rightarrow> client" where
  "appendUserBubble t c = (if \<not> msgContainer c then c else c\<lparr>ui := ui c @ [UserBubble t]\<rparr>)"

text \<open>
  \<open>appendBotBubble(text)\<close> calls \<open>(text || '').substring\<close>, which throws a TypeError when
  \<open>text\<close> is truthy and not a string. \<open>bubble\<close> is the call on a string.
\<close>

definition bubble :: "jstring \<Rightarrow> client \<Rightarrow> client" where
  "bubble t c = (if \<not> msgContainer c then c else c\<lparr>ui := ui c @ [BotBubble t]\<rparr>)"

definition appendBotBubble :: "jsval \<Rightarrow> client \<Rightarrow> run" where
  "appendBotBubble v c =
     (if \<not> msgContainer c then Done c
      else (case or_else v (JStr []) of
        JStr t \<Rightarrow> Done (bubble t c)
      | _ \<Rightarrow> Thrown c))"

definition hideCrisis :: "client \<Rightarrow> client" where
  "hideCrisis c = (if \<not> crisisBox c then c else c\<lparr>ui := ui c @ [CrisisHidden]\<rparr>)"

text \<open>\<open>showCrisis\<close> reads \<open>h.name\<close> of every helpline, which throws on \<open>null\<close>.\<close>

definition showCrisis :: "jsval list \<Rightarrow> client \<Rightarrow> run" where
  "showCrisis hs c =
     (if \<not> crisisNumbers c \<or> \<not> crisisBox c then Done c
      else if list_ex (\<lambda>h. h = JNull \<or> h = JUndefined) hs then Thrown c
      else Done (c\<lparr>ui := ui c @ [CrisisShown hs]\<rparr>))"

definition escapeHtml :: "jsval \<Rightarrow> jstring" where
  "escapeHtml v =
     (case v of
        JStr t \<Rightarrow> concat (map (\<lambda>c.
          if c = 38 then js ''&amp;''
          else if c = 60 then js ''&lt;''
          else if c = 62 then js ''&gt;''
          else if c = 34 then js ''&quot;''
          else if c = 39 then js ''&#039;''
          else [c]) t)
      | _ \<Rightarrow> [])"

definition formatStepNumber :: "jstring \<Rightarrow> int \<Rightarrow> int \<Rightarrow> jstring" where
  "formatStepNumber lang idx total' =
     (if total' \<le> 0 then []
      else if lang = js ''hi'' then [2325, 2342, 2350, 32] @ show_int idx @ [47] @ show_int total'
      else js ''Step '' @ show_int idx @ js '' of '' @ show_int total')"

definition renderCurrentExerciseStep :: "client \<Rightarrow> client" where
  "renderCurrentExerciseStep c =
     (case exerciseState c of
        None \<Rightarrow> c
      | Some e \<Rightarrow>
          if \<not> msgContainer c then c
          else
            (let idx = currentStep e;
                 total' = totalSteps e;
                 step = (if truthy (analysis e) \<and> truthy (get (analysis e) (js ''recommendations''))
                         then element (get (analysis e) (js ''recommendations'')) idx
                         else JNull)
             in if \<not> truthy step then
                  bubble (if selectedLang c = js ''hi''
                          then [2325, 2342, 2350, 32, 2313, 2346, 2354, 2348, 2381, 2343, 32,
                                2344, 2361, 2368, 2306, 2404]
                          else js ''Step not available.'') c
                else c\<lparr>ui := ui c @
                       [StepHeader (formatStepNumber (selectedLang c) (idx + 1) total'),
                        StepCard step,
                        StepControls idx (idx \<le> 0) (idx \<ge> total' - 1)]\<rparr>))"

definition goToStep :: "int \<Rightarrow> client \<Rightarrow> client" where
  "goToStep newIndex c =
     (case exerciseState c of
        None \<Rightarrow> c
      | Some e \<Rightarrow>
          renderCurrentExerciseStep
            (c\<lparr>exerciseState := Some (e\<lparr>currentStep := max 0 (min (totalSteps e - 1) newIndex)\<rparr>)\<rparr>))"

definition completion_message :: "runtime \<Rightarrow> jstring \<Rightarrow> int \<Rightarrow> jsval \<Rightarrow> jstring" where
  "completion_message rt lang total' finalScore =
     (if lang = js ''hi''
      then [2309, 2349, 2381, 2351, 2366, 2360, 32, 2346, 2370, 2352, 2366, 33, 32]
           @ show_int total'
           @ [32, 2325, 2342, 2350, 32, 2346, 2370, 2352, 2375, 2404, 32, 2309, 2306, 2340,
              2367, 2350, 32, 2360, 2381, 2325, 2379, 2352, 58, 32]
           @ toStr rt finalScore
           @ [47, 49, 48, 48, 2404, 32, 2358, 2366, 2344, 2342, 2366, 2352, 33]
      else js ''Exercise complete! '' @ show_int total' @ js '' steps done. Final score: ''
           @ toStr rt finalScore @ js ''/100. Great job!'')"

definition completeExercise :: "runtime \<Rightarrow> client \<Rightarrow> client" where
  "completeExercise rt c =
     (case exerciseState c of
        None \<Rightarrow> c
      | Some e \<Rightarrow>
          (let finalScore = (if truthy (analysis e) \<and> truthy (get (analysis e) (js ''score''))
                             then get (analysis e) (js ''score'') else JNum 0);
               completionMsg = completion_message rt (selectedLang c) (totalSteps e) finalScore
           in (bubble completionMsg c)\<lparr>exerciseState := None\<rparr>))"

definition summary_text :: "runtime \<Rightarrow> jstring \<Rightarrow> jsval \<Rightarrow> jstring" where
  "summary_text rt lang result =
     (let posture = escapeHtml (or_else (get result (js ''summary''))
                      (or_else (get result (js ''posture'')) (JStr (js ''Unknown''))));
          score = escapeHtml (JStr (toStr rt (or_else (get result (js ''score'')) (JStr (js ''N/A'')))))
      in if lang = js ''hi''
         then [2346, 2379, 2360, 2381, 2335, 2352, 32, 2330, 2367, 2344, 2381, 2361, 58, 32]
              @ posture @ [10, 2360, 2381, 2325, 2379, 2352, 58, 32] @ score
         else js ''Posture: '' @ posture @ [10] @ js ''Score: '' @ score)"

definition handleAnalysisResult :: "runtime \<Rightarrow> jsval \<Rightarrow> client \<Rightarrow> run" where
  "handleAnalysisResult rt result c =
     (if \<not> truthy result then
        Done (bubble (if selectedLang c = js ''hi''
                      then [2357, 2367, 2358, 2381, 2354, 2375, 2359, 2339, 32, 2313, 2346, 2354,
                            2348, 2381, 2343, 32, 2344, 2361, 2368, 2306, 32, 2361, 2376, 2404]
                      else js ''Analysis not available.'') c)
      else
        (let summaryText = summary_text rt (selectedLang c) result;
             notes = get result (js ''notes'')
         in and_then (if truthy notes then appendBotBubble notes (bubble summaryText c)
                      else Done (bubble summaryText c))
              (\<lambda>c1.
                 let recommendations = or_else (get result (js ''recommendations'')) (JArr []);
                     c2 = (if isArray recommendations \<and> length (elements recommendations) > 0 then
                          renderCurrentExerciseStep
                            (c1\<lparr>exerciseState := Some
                               \<lparr>analysis = result, currentStep = 0,
                                totalSteps = int (length (elements recommendations))\<rparr>\<rparr>)
                        else
                          (bubble (if selectedLang c1 = js ''hi''
                                   then [2357, 2367, 2358, 2381, 2354, 2375, 2359, 2339, 32, 2346,
                                         2370, 2352, 2366, 44, 32, 2354, 2375, 2325, 2367, 2344,
                                         32, 2325, 2379, 2312, 32, 2360, 2369, 2333, 2366, 2357,
                                         32, 2313, 2346, 2354, 2348, 2381, 2343, 32, 2344, 2361,
                                         2368, 2306, 2404]
                                   else js ''Analysis complete, but no recommendations available.'')
                             c1)\<lparr>exerciseState := None\<rparr>);
                     textToStore = (if truthy notes then summaryText @ [10] @ toStr rt notes
                                    else summaryText)
                 in Done (c2\<lparr>chatHistory := chatHistory c2 @
                            [\<lparr>role = js ''model'', parts = JStr textToStore\<rparr>]\<rparr>))))"

text \<open>
  What \<open>await fetch\<close> meets in \<open>sendMessage\<close>: the 30-second timer aborts the request
  (\<open>AbortError\<close>), the request fails otherwise, or a response arrives with its status and
  its body text (\<open>None\<close> when the body cannot be read).
\<close>

datatype fetched = Aborted | NetworkError | Resolved nat "jstring option"

definition safeTrim :: "jstring \<Rightarrow> nat \<Rightarrow> jstring" where
  "safeTrim t n = (if length t > n then take n t @ [8230] else t)"

definition pop :: "client \<Rightarrow> client" where
  \<comment> \<open>\<open>chatHistory.pop()\<close>\<close>
  "pop c = c\<lparr>chatHistory := butlast (chatHistory c)\<rparr>"

definition push :: "jstring \<Rightarrow> jsval \<Rightarrow> client \<Rightarrow> client" where
  \<comment> \<open>\<open>chatHistory.push({ role: r, parts: [{ text: v }] })\<close>\<close>
  "push r v c = c\<lparr>chatHistory := chatHistory c @ [\<lparr>role = r, parts = v\<rparr>]\<rparr>"

definition server_error_bubble :: "jstring \<Rightarrow> nat \<Rightarrow> jstring \<Rightarrow> jstring" where
  "server_error_bubble reqLang st raw =
     (if reqLang = js ''hi''
      then [2360, 2352, 2381, 2357, 2352, 32, 2340, 2381, 2352, 2369, 2335, 2367, 32]
           @ show_nat st @ js '': ''
           @ (if raw \<noteq> [] then safeTrim raw 800
              else [2325, 2379, 2312, 32, 2332, 2357, 2366, 2348, 32, 2344, 2361, 2368, 2306])
      else js ''Server error '' @ show_nat st @ js '': ''
           @ (if raw \<noteq> [] then safeTrim raw 800 else js ''No response body''))"

text \<open>Lines 587 to 594: show the text, append the model turn, set the crisis box.\<close>

definition finish :: "jsval \<Rightarrow> jsval \<Rightarrow> client \<Rightarrow> run" where
  "finish finalText helplines c =
     and_then (appendBotBubble finalText c)
       (\<lambda>c1. let c2 = push (js ''model'') finalText c1 in
              if isArray helplines \<and> length (elements helplines) > 0
              then showCrisis (elements helplines) c2
              else Done (hideCrisis c2))"

text \<open>Lines 566 to 594: the branches on the parsed response.\<close>

definition on_response :: "runtime \<Rightarrow> jstring \<Rightarrow> jsval \<Rightarrow> client \<Rightarrow> run" where
  "on_response rt reqLang parsedResponse c =
     (if (case parsedResponse of JObj kvs \<Rightarrow> True | JArr xs \<Rightarrow> True | _ \<Rightarrow> False) then
        (if get parsedResponse (js ''type'') = JStr (js ''reply'')
            \<and> truthy (get parsedResponse (js ''text'')) then
           finish (JStr (trim (toStr rt (get parsedResponse (js ''text''))))) JNull c
         else if get parsedResponse (js ''type'') = JStr (js ''crisis'')
            \<and> truthy (get parsedResponse (js ''text'')) then
           finish (JStr (trim (toStr rt (get parsedResponse (js ''text'')))))
             (if isArray (get parsedResponse (js ''helplines''))
              then get parsedResponse (js ''helplines'') else JNull) c
         else if get parsedResponse (js ''type'') = JStr (js ''analysis'') then
           and_then (handleAnalysisResult rt parsedResponse c)
             (finish (or_else (get parsedResponse (js ''summary''))
                       (or_else (get parsedResponse (js ''notes'')) (JStr (js ''Received analysis.''))))
                JNull)
         else
           finish (JStr (if reqLang = js ''hi''
                         then [2325, 2381, 2359, 2350, 2366, 32, 2325, 2352, 2375, 2306, 44, 32,
                               2350, 2369, 2333, 2375, 32, 2360, 2350, 2333, 32, 2344, 2361, 2368,
                               2306, 32, 2310, 2351, 2366, 2404]
                         else js ''Sorry, I could not understand the response.'')) JNull c)
      else
        finish (JStr (if reqLang = js ''hi''
                      then [2325, 2381, 2359, 2350, 2366, 32, 2325, 2352, 2375, 2306, 44, 32, 2332,
                            2357, 2366, 2348, 32, 2346, 2381, 2352, 2366, 2346, 2381, 2340, 32,
                            2344, 2361, 2368, 2306, 32, 2361, 2369, 2310, 2404]
                      else js ''Sorry, no response received.'')) JNull c)"

text \<open>The \<open>catch\<close> block of \<open>sendMessage\<close>.\<close>

definition on_error :: "bool \<Rightarrow> client \<Rightarrow> client" where
  "on_error abort c =
     pop (bubble
       (if abort then
          (if selectedLang c = js ''hi''
           then [2309, 2344, 2369, 2352, 2379, 2343, 32, 2325, 2366, 32, 2360, 2350, 2351, 32,
                 2360, 2350, 2366, 2346, 2381, 2340, 8212, 2342, 2369, 2348, 2366, 2352, 2366,
                 32, 2325, 2379, 2358, 2367, 2358, 32, 2325, 2352, 2375, 2306, 2404]
           else js ''Request timed out '' @ [8212] @ js '' try again.'')
        else
          (if selectedLang c = js ''hi''
           then [2344, 2375, 2335, 2357, 2352, 2381, 2325, 32, 2351, 2366, 32, 2360, 2352, 2381,
                 2357, 2352, 32, 2340, 2381, 2352, 2369, 2335, 2367, 8212, 2348, 2366, 2342, 32,
                 2350, 2375, 2306, 32, 2325, 2379, 2358, 2367, 2358, 32, 2325, 2352, 2375, 2306,
                 2404]
           else js ''Network or server error '' @ [8212] @ js '' try again later.'')) c)"

definition reqLang_of :: "client \<Rightarrow> jstring" where
  \<comment> \<open>\<open>(langSelect && langSelect.value) ? langSelect.value : selectedLang || 'en'\<close>\<close>
  "reqLang_of c =
     (case langSelect c of
        Some v \<Rightarrow> if v \<noteq> [] then v else if selectedLang c \<noteq> [] then selectedLang c else js ''en''
      | None \<Rightarrow> if selectedLang c \<noteq> [] then selectedLang c else js ''en'')"

text \<open>
  One call of \<open>sendMessage\<close> run to its end with no other handler in between, given what
  the request meets.
\<close>

definition sendMessage :: "runtime \<Rightarrow> jstring \<Rightarrow> fetched \<Rightarrow> client \<Rightarrow> client" where
  "sendMessage rt t f c =
     (if t = [] then c
      else
        (let c1 = push (js ''user'') (JStr t) (appendUserBubble t (hideCrisis c)) in
         if \<not> msgContainer c1 then c1
         else (case f of
           Aborted \<Rightarrow> on_error True c1
         | NetworkError \<Rightarrow> on_error False c1
         | Resolved st b \<Rightarrow>
             if \<not> response_ok st then
               pop (bubble (server_error_bubble (reqLang_of c1) st (case b of Some raw \<Rightarrow> raw | None \<Rightarrow> [])) c1)
             else (case b of
               None \<Rightarrow> on_error False c1
             | Some raw \<Rightarrow>
                 (case JSON_parse rt raw of
                    None \<Rightarrow> on_error False c1
                  | Some parsedResponse \<Rightarrow>
                      (case on_response rt (reqLang_of c1) parsedResponse c1 of
                         Done c2 \<Rightarrow> c2
                       | Thrown c2 \<Rightarrow> on_error False c2))))))"

text \<open>
  The click handlers of the Prev and Next buttons of a step rendered at index \<open>idx\<close>
  (lines 475 and 481). The buttons of earlier steps stay on the page, so \<open>idx\<close> need not
  be the current step.
\<close>

definition prev_click :: "int \<Rightarrow> client \<Rightarrow> client" where
  "prev_click idx c = goToStep (idx - 1) c"

definition next_click :: "int \<Rightarrow> client \<Rightarrow> client" where
  "next_click idx c = goToStep (idx + 1) c"

section \<open>Properties stated by the specification\<close>

text \<open>
  The invariant of an exercise: the current step is within the steps, and the number of
  steps is the length of the recommendations of the analysis.
\<close>

definition exercise_inv :: "exercise \<Rightarrow> bool" where
  "exercise_inv e \<longleftrightarrow>
     0 \<le> currentStep e \<and> currentStep e < totalSteps e
     \<and> (case get (analysis e) (js ''recommendations'') of
          JArr rs \<Rightarrow> totalSteps e = int (length rs)
        | _ \<Rightarrow> False)"

definition state_ok :: "client \<Rightarrow> bool" where
  "state_ok c = (case exerciseState c of None \<Rightarrow> True | Some e \<Rightarrow> exercise_inv e)"

text \<open>
  The credentials are missing when the selected provider is \<open>google\<close> without a
  \<open>GOOGLE_API_KEY\<close>, \<open>openai\<close> without an \<open>OPENAI_API_KEY\<close>, or neither of the two
  recognised names. An unset \<open>LLM_PROVIDER\<close> selects \<open>google\<close>.
\<close>

definition missing_credentials :: "environment \<Rightarrow> bool" where
  "missing_credentials env \<longleftrightarrow>
     (provider env = js ''google'' \<and> \<not> env_set (GOOGLE_API_KEY env))
     \<or> (provider env = js ''openai'' \<and> \<not> env_set (OPENAI_API_KEY env))
     \<or> (provider env \<noteq> js ''google'' \<and> provider env \<noteq> js ''openai'')"

definition google_env :: environment where
  "google_env = \<lparr>LLM_PROVIDER = None, GOOGLE_API_KEY = Some (js ''key''), OPENAI_API_KEY = None\<rparr>"

definition keyless_env :: environment where
  "keyless_env = \<lparr>LLM_PROVIDER = Some (js ''openai''), GOOGLE_API_KEY = Some (js ''key''), OPENAI_API_KEY = Some []\<rparr>"

text \<open>Inputs of the examples.\<close>

definition fresh_page :: client where
  "fresh_page =
     \<lparr>chatHistory = [], exerciseState = None, selectedLang = js ''en'', langSelect = Some (js ''en''),
      msgContainer = True, crisisBox = True, crisisNumbers = True, ui = []\<rparr>"

definition two_steps :: jsval where
  "two_steps = JObj
     [(js ''type'', JStr (js ''analysis'')),
      (js ''summary'', JStr (js ''Slouching'')),
      (js ''score'', JNum 72),
      (js ''recommendations'', JArr [JStr (js ''Sit straight''), JStr (js ''Relax shoulders'')])]"


definition openai_result :: "jstring \<Rightarrow> jsval" where
  \<comment> \<open>a chat completion of the OpenAI SDK whose first choice has the given content\<close>
  "openai_result t = JObj
     [(js ''choices'', JArr [JObj [(js ''message'', JObj [(js ''content'', JStr t)])]])]"

definition numeric_result :: jsval where
  \<comment> \<open>a Gemini-shaped result whose first part carries a number where the text should be\<close>
  "numeric_result = JObj
     [(js ''response'', JObj
        [(js ''candidates'', JArr
           [JObj [(js ''content'', JObj
              [(js ''parts'', JArr [JObj [(js ''text'', JNum 5)]])])]])])]"

definition analysed_page :: client where
  \<comment> \<open>the fresh page after the analysis with two steps has arrived\<close>
  "analysed_page =
     (case handleAnalysisResult example_runtime two_steps fresh_page of
        Done c \<Rightarrow> c
      | Thrown c \<Rightarrow> c)"

section \<open>The retry loop of /api/chat\<close>

lemma chat_loop_skip:
  assumes "\<forall>k. a \<le> k \<and> k < n \<longrightarrow> try_attempt rt call lang message k = None"
    and "a \<le> n" and "n \<le> maxAttempts"
  shows "chat_loop rt call lang message a zs = chat_loop rt call lang message n (zs @ map backoff [a..<n])"
  using assms
proof (induction "n - a" arbitrary: a zs)
  case 0
  then show ?case by simp
next
  case (Suc d)
  then have lt: "a < n" and none: "try_attempt rt call lang message a = None" by auto
  have step: "chat_loop rt call lang message a zs = chat_loop rt call lang message (a + 1) (zs @ [backoff a])"
    using lt Suc.prems(3) none by (subst chat_loop.simps) simp
  have "chat_loop rt call lang message (a + 1) (zs @ [backoff a])
        = chat_loop rt call lang message n ((zs @ [backoff a]) @ map backoff [a + 1..<n])"
    using Suc by (intro Suc.hyps(1)) auto
  then show ?case using step lt by (simp add: upt_conv_Cons)
qed

lemma chat_loop_returns:
  "a \<le> maxAttempts \<Longrightarrow> try_attempt rt call lang message a = Some r \<Longrightarrow>
   chat_loop rt call lang message a zs = \<lparr>sent = r, attempts = a, slept = zs\<rparr>"
  by (subst chat_loop.simps) simp

lemma chat_loop_exhausted:
  "try_attempt rt call lang message maxAttempts = None \<Longrightarrow>
   chat_loop rt call lang message maxAttempts zs =
     \<lparr>sent = json (server_error_reply lang), attempts = maxAttempts, slept = zs\<rparr>"
  by (subst chat_loop.simps) simp

lemma chat_configured:
  "select_client env = Some c \<Longrightarrow>
   chat rt env call lang_field message = chat_loop rt call (lang_of lang_field) message 1 []"
  by (simp add: chat_def)

lemma backoffs: "map backoff [Suc 0..<3] = [1000, 2000]"
  by (simp add: backoff_def upt_conv_Cons)

lemma chat_all_fail:
  assumes "select_client env = Some c"
    and "\<forall>n. try_attempt rt call (lang_of lang_field) message n = None"
  shows "chat rt env call lang_field message =
           \<lparr>sent = json (server_error_reply (lang_of lang_field)), attempts = 3, slept = [1000, 2000]\<rparr>"
proof -
  have "chat rt env call lang_field message
        = chat_loop rt call (lang_of lang_field) message 3 ([] @ map backoff [1..<3])"
    unfolding chat_configured [OF assms(1)]
    using assms(2) by (intro chat_loop_skip) (simp_all add: maxAttempts_def)
  also have "\<dots> = \<lparr>sent = json (server_error_reply (lang_of lang_field)), attempts = 3, slept = [1000, 2000]\<rparr>"
    using chat_loop_exhausted [of rt call "lang_of lang_field" message] assms(2)
    by (simp add: maxAttempts_def backoffs)
  finally show ?thesis .
qed

lemma process_result_status:
  "process_result rt lang message result = Some x \<Longrightarrow> status x = 200"
  by (auto simp: process_result_def json_def Let_def split: if_splits jsval.splits)

lemma chat_loop_in_loop:
  "a \<le> maxAttempts \<Longrightarrow>
   status (sent (chat_loop rt call lang message a zs)) = 200
   \<and> attempts (chat_loop rt call lang message a zs) \<le> maxAttempts"
proof (induction rt call lang message a zs rule: chat_loop.induct)
  case (1 rt call lang message attempt zs)
  show ?case
  proof (cases "try_attempt rt call lang message attempt")
    case None
    show ?thesis
    proof (cases "attempt \<ge> maxAttempts")
      case True
      with None "1.prems" show ?thesis
        by (subst (1 2) chat_loop.simps) (simp add: json_def)
    next
      case False
      then have "attempt + 1 \<le> maxAttempts" by simp
      with "1.IH" [OF "1.prems" None False] None False "1.prems" show ?thesis
        by (subst (1 2) chat_loop.simps) simp
    qed
  next
    case (Some r)
    then have "status r = 200"
      by (auto simp: try_attempt_def split: outcome.splits dest: process_result_status)
    with Some "1.prems" show ?thesis
      by (subst (1 2) chat_loop.simps) simp
  qed
qed

lemma chat_status:
  "(status (sent (chat rt env call lang_field message)) = 200
    \<or> status (sent (chat rt env call lang_field message)) = 500)
   \<and> attempts (chat rt env call lang_field message) \<le> maxAttempts"
  using chat_loop_in_loop [of 1 rt call "lang_of lang_field" message "[]"]
  by (cases "select_client env") (simp_all add: chat_def maxAttempts_def)

lemma google_env_selected: "select_client google_env = Some Gemini"
  by (simp add: select_client_def google_env_def provider_def env_set_def)





text \<open>
  Claim C10. When the credentials of the selected provider are missing, the handler answers
  with status 500 and the body \<open>{ error: 'Missing API credentials for selected provider' }\<close>
  whatever the message, the language and the provider would do: no attempt is started and
  nothing is slept.
\<close>

theorem chat_missing_credentials:
  "missing_credentials env \<Longrightarrow>
   chat rt env call lang_field message =
     \<lparr>sent = \<lparr>status = 500,
               body = JObj [(js ''error'', JStr (js ''Missing API credentials for selected provider''))]\<rparr>,
      attempts = 0, slept = []\<rparr>"
  by (auto simp: missing_credentials_def chat_def select_client_def)

text \<open>
  The hypothesis of C10 holds for \<open>LLM_PROVIDER=openai\<close> with an empty \<open>OPENAI_API_KEY\<close>.
\<close>

theorem chat_missing_credentials_witness:
  "missing_credentials keyless_env
   \<and> chat example_runtime keyless_env (\<lambda>n. Returns (JObj [])) None (js ''I feel hopeless'') =
     \<lparr>sent = \<lparr>status = 500,
               body = JObj [(js ''error'', JStr (js ''Missing API credentials for selected provider''))]\<rparr>,
      attempts = 0, slept = []\<rparr>"
proof -
  have m: "missing_credentials keyless_env"
    by (simp add: missing_credentials_def keyless_env_def provider_def env_set_def)
  show ?thesis using m chat_missing_credentials [OF m] by simp
qed

text \<open>
  Claim C4 says that some execution gets past the retry loop and answers with status 429
  and \<open>{ error: "Quota exceeded" }\<close>. No execution does: the third attempt either returns
  from the \<open>try\<close> block or from the \<open>catch\<close> block.
\<close>

theorem no_quota_exceeded_counterexample:
  "\<not> (\<exists>rt env call lang_field message.
        sent (chat rt env call lang_field message)
          = \<lparr>status = 429, body = JObj [(js ''error'', JStr (js ''Quota exceeded''))]\<rparr>)"
proof
  assume "\<exists>rt env call lang_field message.
        sent (chat rt env call lang_field message)
          = \<lparr>status = 429, body = JObj [(js ''error'', JStr (js ''Quota exceeded''))]\<rparr>"
  then obtain rt env call lang_field message where
    "sent (chat rt env call lang_field message)
          = \<lparr>status = 429, body = JObj [(js ''error'', JStr (js ''Quota exceeded''))]\<rparr>"
    by blast
  then have "status (sent (chat rt env call lang_field message)) = 429" by simp
  with chat_status [of rt env call lang_field message] show False by simp
qed

text \<open>
  Claim C4, amended. Every execution of the handler answers with status 200 or 500, never
  429, after at most 3 attempts; when a provider is configured and every attempt fails with
  an exception, the answer is the soft server-error reply sent from inside the loop, with
  status 200, after 3 attempts and sleeps of 1000 ms and 2000 ms.
\<close>

theorem exhaustion_is_answered_in_loop:
  "status (sent (chat rt env call lang_field message)) \<noteq> 429
   \<and> (status (sent (chat rt env call lang_field message)) = 200
      \<or> status (sent (chat rt env call lang_field message)) = 500)
   \<and> attempts (chat rt env call lang_field message) \<le> 3
   \<and> (select_client env \<noteq> None \<and> (\<forall>n. try_attempt rt call (lang_of lang_field) message n = None)
      \<longrightarrow> chat rt env call lang_field message =
            \<lparr>sent = \<lparr>status = 200, body = server_error_reply (lang_of lang_field)\<rparr>,
             attempts = 3, slept = [1000, 2000]\<rparr>)"
  using chat_status [of rt env call lang_field message] chat_all_fail [of env _ rt call lang_field message]
  by (auto simp: maxAttempts_def json_def)

text \<open>
  The hypothesis of the amended C4 holds for a provider whose result carries a number as
  its text on every attempt, so that \<open>replyText.trim\<close> throws each time.
\<close>

theorem exhaustion_is_answered_in_loop_witness:
  "select_client google_env \<noteq> None
   \<and> try_attempt example_runtime (\<lambda>n. Returns numeric_result) (lang_of None) (js ''hello'') 1 = None
   \<and> chat example_runtime google_env (\<lambda>n. Returns numeric_result) None (js ''hello'') =
       \<lparr>sent = \<lparr>status = 200, body = server_error_reply (js ''en'')\<rparr>,
        attempts = 3, slept = [1000, 2000]\<rparr>"
proof -
  have e: "extractReplyFromProviderObj example_runtime numeric_result = JNum 5"
    by code_simp
  have t: "\<forall>n. try_attempt example_runtime (\<lambda>n. Returns numeric_result) (lang_of None) (js ''hello'') n = None"
    by (simp add: try_attempt_def process_result_def e)
  have s: "select_client google_env \<noteq> None"
    by (simp add: google_env_selected)
  show ?thesis
    using exhaustion_is_answered_in_loop [of example_runtime google_env "\<lambda>n. Returns numeric_result" None "js ''hello''"]
      s t
    by (simp add: lang_of_def)
qed

section \<open>Reply extraction\<close>


lemma backtick_plain [simp]: "\<not> is_space backtick" "\<not> is_word backtick"
  by (simp_all add: is_space_def is_word_def backtick_def)


lemma dropWhile_stop: "ys = [] \<or> \<not> P (hd ys) \<Longrightarrow> dropWhile P ys = ys"
  by (cases ys) simp_all

lemma trim_clean:
  assumes "s = [] \<or> (\<not> is_space (hd s) \<and> \<not> is_space (last s))"
  shows "trim s = s"
proof (cases "s = []")
  case True
  then show ?thesis by (simp add: trim_def)
next
  case False
  with assms have h: "\<not> is_space (hd s)" and l: "\<not> is_space (last s)" by simp_all
  have a: "dropWhile is_space s = s"
    using h False by (cases s) simp_all
  have b: "dropWhile is_space (rev s) = rev s"
    using l False by (intro dropWhile_stop) (simp add: hd_rev)
  show ?thesis by (simp add: trim_def a b)
qed




lemma strip_fences_plain:
  assumes "s \<noteq> []" and "\<not> is_space (hd s)" and "\<not> is_space (last s)" and "hd s \<noteq> backtick"
  shows "strip_fences s = s"
proof -
  have t: "trim s = s" using assms by (intro trim_clean) simp
  have f: "\<not> fenced3 s" using assms by (cases s) (auto simp: fenced3_def numeral_3_eq_3)
  have v: "unfence1 s = s" using assms by (cases s) (auto simp: unfence1_def)
  show ?thesis unfolding strip_fences_def Let_def t using f v t by simp
qed


lemma choices_truthy: "isArray (get j (js ''choices'')) \<Longrightarrow> truthy j"
  by (cases j) simp_all




lemma extract_openai:
  assumes "\<not> truthy (gemini_text j)" and "get j (js ''choices'') = JArr chs"
    and "openai_content j = JStr s" and "s \<noteq> []"
  shows "extractReplyFromProviderObj rt j = JStr (strip_fences s)"
proof -
  have "truthy j" using assms(2) by (intro choices_truthy) simp
  then show ?thesis
    using assms by (simp add: extractReplyFromProviderObj_def stripCodeFences_def)
qed



lemma openai_result_extract:
  "t \<noteq> [] \<Longrightarrow> extractReplyFromProviderObj rt (openai_result t) = JStr (strip_fences t)"
  by (rule extract_openai [where chs = "[JObj [(js ''message'', JObj [(js ''content'', JStr t)])]]"])
     (simp_all add: openai_result_def gemini_text_def openai_content_def)


lemma take_care_plain: "strip_fences (js ''Take care'') = js ''Take care''"
  by (rule strip_fences_plain) (simp_all add: is_space_def backtick_def)

lemma take_care_not_json: "parse_json (js ''Take care'') = None"
  by code_simp









section \<open>The crisis keywords\<close>

text \<open>
  Claim C1 says that a crisis keyword in the message gives a response of type \<open>crisis\<close>
  whatever the provider does. When the provider throws on every attempt, the message
  "I feel hopeless" gets the server-error reply of type \<open>reply\<close>, with no helplines.
\<close>

theorem crisis_keyword_counterexample:
  "(\<exists>k\<in>set triggers. str_includes (toLowerCase example_runtime (js ''I feel hopeless'')) k)
   \<and> select_client google_env = Some Gemini
   \<and> get (body (sent (chat example_runtime google_env (\<lambda>n. Throws) (Some (js ''en'')) (js ''I feel hopeless''))))
        (js ''type'') = JStr (js ''reply'')
   \<and> get (body (sent (chat example_runtime google_env (\<lambda>n. Throws) (Some (js ''en'')) (js ''I feel hopeless''))))
        (js ''type'') \<noteq> JStr (js ''crisis'')
   \<and> get (body (sent (chat example_runtime google_env (\<lambda>n. Throws) (Some (js ''en'')) (js ''I feel hopeless''))))
        (js ''helplines'') = JUndefined"
proof -
  have kw: "str_includes (toLowerCase example_runtime (js ''I feel hopeless'')) (js ''hopeless'')"
    by code_simp
  have "js ''hopeless'' \<in> set triggers"
    by (simp add: triggers_def)
  with kw have k: "\<exists>k\<in>set triggers. str_includes (toLowerCase example_runtime (js ''I feel hopeless'')) k"
    by blast
  have "chat example_runtime google_env (\<lambda>n. Throws) (Some (js ''en'')) (js ''I feel hopeless'')
        = \<lparr>sent = json (server_error_reply (lang_of (Some (js ''en'')))), attempts = 3, slept = [1000, 2000]\<rparr>"
    by (rule chat_all_fail [OF google_env_selected]) (simp add: try_attempt_def)
  then show ?thesis
    using k google_env_selected by (simp add: json_def server_error_reply_def)
qed

text \<open>
  Claim C1, amended. For the languages \<open>en\<close> and \<open>hi\<close> and a message whose lower-cased
  text contains a crisis keyword: when a provider is configured, the attempts before attempt
  \<open>n\<close> have thrown and attempt \<open>n\<close> yields a reply string that is not empty once trimmed,
  the handler answers with status 200 and type \<open>crisis\<close>. The helplines are the two fallback
  helplines of the language, unless the reply itself parses as a payload of type \<open>crisis\<close>
  with truthy helplines of its own, which are then passed on.
\<close>

theorem crisis_keyword_after_reply:
  assumes "select_client env = Some cl"
    and "lang_of lang_field = js ''en'' \<or> lang_of lang_field = js ''hi''"
    and "\<exists>k\<in>set triggers. str_includes (toLowerCase rt message) k"
    and "1 \<le> n" and "n \<le> maxAttempts"
    and "\<forall>k. 1 \<le> k \<and> k < n \<longrightarrow> try_attempt rt call (lang_of lang_field) message k = None"
    and "call n = Returns result"
    and "extractReplyFromProviderObj rt result = JStr t" and "trim t \<noteq> []"
  shows "status (sent (chat rt env call lang_field message)) = 200
     \<and> attempts (chat rt env call lang_field message) = n
     \<and> get (body (sent (chat rt env call lang_field message))) (js ''type'') = JStr (js ''crisis'')
     \<and> (if get (parseJsonSafe rt (JStr t)) (js ''type'') = JStr (js ''crisis'')
           \<and> truthy (get (parseJsonSafe rt (JStr t)) (js ''helplines''))
        then get (body (sent (chat rt env call lang_field message))) (js ''helplines'')
               = get (parseJsonSafe rt (JStr t)) (js ''helplines'')
        else get (body (sent (chat rt env call lang_field message))) (js ''helplines'')
               = get fallbackHelplines (lang_of lang_field)
           \<and> (\<exists>h1 h2. get (body (sent (chat rt env call lang_field message))) (js ''helplines'')
                 = JArr [h1, h2]))"
proof -
  let ?lang = "lang_of lang_field"
  let ?parsed = "parseJsonSafe rt (JStr t)"
  let ?r = "if get ?parsed (js ''type'') = JStr (js ''crisis'')
            then json (JObj [(js ''type'', JStr (js ''crisis'')),
                             (js ''text'', get ?parsed (js ''text'')),
                             (js ''helplines'', or_else (get ?parsed (js ''helplines'')) (get fallbackHelplines ?lang))])
            else json (crisis_reply ?lang)"
  have tne: "t \<noteq> []" using assms(9) by (auto simp: trim_def)
  have kw: "list_ex (\<lambda>k. str_includes (toLowerCase rt message) k) triggers"
    using assms(3) by (simp add: list_ex_iff)
  have "process_result rt ?lang message result = Some ?r"
    using assms(8,9) tne kw by (simp add: process_result_def Let_def)
  then have "try_attempt rt call ?lang message n = Some ?r"
    using assms(7) by (simp add: try_attempt_def)
  then have "chat_loop rt call ?lang message n ([] @ map backoff [1..<n])
             = \<lparr>sent = ?r, attempts = n, slept = [] @ map backoff [1..<n]\<rparr>"
    using assms(5) by (rule chat_loop_returns [rotated])
  moreover have "chat rt env call lang_field message
        = chat_loop rt call ?lang message n ([] @ map backoff [1..<n])"
    unfolding chat_configured [OF assms(1)]
    by (rule chat_loop_skip [OF assms(6) assms(4) assms(5)])
  ultimately have run: "chat rt env call lang_field message
        = \<lparr>sent = ?r, attempts = n, slept = [] @ map backoff [1..<n]\<rparr>"
    by simp
  have fb: "\<exists>h1 h2. get fallbackHelplines ?lang = JArr [h1, h2]"
    using assms(2) by (auto simp: fallbackHelplines_def)
  show ?thesis
    unfolding run using fb
    by (simp add: json_def crisis_reply_def or_else_def)
qed

text \<open>
  The hypotheses of the amended C1 hold for an upper-case keyword, the language \<open>hi\<close> and
  a provider that throws once and then replies.
\<close>

theorem crisis_keyword_after_reply_witness:
  "select_client google_env = Some Gemini
   \<and> str_includes (toLowerCase example_runtime (js ''I feel HOPELESS'')) (js ''hopeless'')
   \<and> extractReplyFromProviderObj example_runtime (openai_result (js ''Take care'')) = JStr (js ''Take care'')
   \<and> status (sent (chat example_runtime google_env
         (\<lambda>k. if k = 2 then Returns (openai_result (js ''Take care'')) else Throws)
         (Some (js ''hi'')) (js ''I feel HOPELESS''))) = 200
   \<and> attempts (chat example_runtime google_env
         (\<lambda>k. if k = 2 then Returns (openai_result (js ''Take care'')) else Throws)
         (Some (js ''hi'')) (js ''I feel HOPELESS'')) = 2
   \<and> get (body (sent (chat example_runtime google_env
         (\<lambda>k. if k = 2 then Returns (openai_result (js ''Take care'')) else Throws)
         (Some (js ''hi'')) (js ''I feel HOPELESS'')))) (js ''type'') = JStr (js ''crisis'')
   \<and> get (body (sent (chat example_runtime google_env
         (\<lambda>k. if k = 2 then Returns (openai_result (js ''Take care'')) else Throws)
         (Some (js ''hi'')) (js ''I feel HOPELESS'')))) (js ''helplines'')
       = get fallbackHelplines (js ''hi'')"
proof -
  let ?call = "\<lambda>k::nat. if k = 2 then Returns (openai_result (js ''Take care'')) else Throws"
  let ?m = "js ''I feel HOPELESS''"
  have l: "lang_of (Some (js ''hi'')) = js ''en'' \<or> lang_of (Some (js ''hi'')) = js ''hi''"
    by (simp add: lang_of_def)
  have kw: "str_includes (toLowerCase example_runtime ?m) (js ''hopeless'')"
    by code_simp
  have "js ''hopeless'' \<in> set triggers"
    by (simp add: triggers_def)
  with kw have k: "\<exists>k\<in>set triggers. str_includes (toLowerCase example_runtime ?m) k"
    by blast
  have n: "(1::nat) \<le> 2" "2 \<le> maxAttempts"
    by (simp_all add: maxAttempts_def)
  have earlier: "\<forall>k. 1 \<le> k \<and> k < 2 \<longrightarrow>
      try_attempt example_runtime ?call (lang_of (Some (js ''hi''))) ?m k = None"
    by (simp add: try_attempt_def)
  have ret: "?call 2 = Returns (openai_result (js ''Take care''))"
    by simp
  have ex: "extractReplyFromProviderObj example_runtime (openai_result (js ''Take care'')) = JStr (js ''Take care'')"
    using openai_result_extract [of "js ''Take care''" example_runtime] take_care_plain by simp
  have tr: "trim (js ''Take care'') \<noteq> []"
    by (simp add: trim_def is_space_def)
  have p: "parseJsonSafe example_runtime (JStr (js ''Take care'')) = JNull"
    using take_care_not_json by (simp add: parseJsonSafe_def example_runtime_def)
  show ?thesis
    using crisis_keyword_after_reply [OF google_env_selected l k n earlier ret ex tr]
      google_env_selected kw ex p
    by (simp add: lang_of_def)
qed

text \<open>
  The other ways in which the keyword check does not decide the response: a reply that
  declares a crisis with an empty helpline list, a language without fallback helplines, and
  an empty reply.
\<close>

lemma declared_crisis_json:
  \<open>parse_json (js ''{"type":"crisis","text":"x","helplines":[]}'')
     = Some (JObj [(js ''type'', JStr (js ''crisis'')), (js ''text'', JStr (js ''x'')),
                   (js ''helplines'', JArr [])])\<close>
  by code_simp

lemma declared_crisis_plain:
  \<open>strip_fences (js ''{"type":"crisis","text":"x","helplines":[]}'')
     = js ''{"type":"crisis","text":"x","helplines":[]}''\<close>
  by (rule strip_fences_plain) (simp_all add: is_space_def backtick_def)

lemma crisis_keyword_provider_helplines:
  \<open>get (body (sent (chat example_runtime google_env
      (\<lambda>n. Returns (openai_result (js ''{"type":"crisis","text":"x","helplines":[]}'')))
      (Some (js ''en'')) (js ''I feel hopeless'')))) (js ''helplines'') = JArr []\<close>
proof -
  let ?t = \<open>js ''{"type":"crisis","text":"x","helplines":[]}''\<close>
  have ex: "extractReplyFromProviderObj example_runtime (openai_result ?t) = JStr ?t"
    using openai_result_extract [of ?t example_runtime] declared_crisis_plain by simp
  have tr: "trim ?t = ?t"
    by (rule trim_clean) (simp add: is_space_def)
  have p: "parseJsonSafe example_runtime (JStr ?t)
      = JObj [(js ''type'', JStr (js ''crisis'')), (js ''text'', JStr (js ''x'')), (js ''helplines'', JArr [])]"
    using declared_crisis_json by (simp add: parseJsonSafe_def example_runtime_def)
  have "try_attempt example_runtime (\<lambda>n. Returns (openai_result ?t)) (js ''en'') (js ''I feel hopeless'') 1
      = Some (json (JObj [(js ''type'', JStr (js ''crisis'')), (js ''text'', JStr (js ''x'')),
                          (js ''helplines'', JArr [])]))"
    using ex tr p by (simp add: try_attempt_def process_result_def or_else_def)
  then have "chat_loop example_runtime (\<lambda>n. Returns (openai_result ?t)) (js ''en'') (js ''I feel hopeless'') 1 []
      = \<lparr>sent = json (JObj [(js ''type'', JStr (js ''crisis'')), (js ''text'', JStr (js ''x'')),
                          (js ''helplines'', JArr [])]), attempts = 1, slept = []\<rparr>"
    by (intro chat_loop_returns) (simp_all add: maxAttempts_def)
  then show ?thesis
    by (simp add: chat_configured [OF google_env_selected] lang_of_def json_def)
qed

lemma crisis_keyword_unknown_locale:
  "get (body (sent (chat example_runtime google_env (\<lambda>n. Returns (openai_result (js ''Take care'')))
      (Some (js ''fr'')) (js ''I feel hopeless'')))) (js ''type'') = JStr (js ''crisis'')
   \<and> get (body (sent (chat example_runtime google_env (\<lambda>n. Returns (openai_result (js ''Take care'')))
      (Some (js ''fr'')) (js ''I feel hopeless'')))) (js ''helplines'') = JUndefined"
proof -
  have ex: "extractReplyFromProviderObj example_runtime (openai_result (js ''Take care'')) = JStr (js ''Take care'')"
    using openai_result_extract [of "js ''Take care''" example_runtime] take_care_plain by simp
  have tr: "trim (js ''Take care'') = js ''Take care''"
    by (simp add: trim_def is_space_def)
  have p: "parseJsonSafe example_runtime (JStr (js ''Take care'')) = JNull"
    using take_care_not_json by (simp add: parseJsonSafe_def example_runtime_def)
  have kw: "list_ex (\<lambda>k. str_includes (toLowerCase example_runtime (js ''I feel hopeless'')) k) triggers"
    by code_simp
  have "try_attempt example_runtime (\<lambda>n. Returns (openai_result (js ''Take care''))) (js ''fr'') (js ''I feel hopeless'') 1
      = Some (json (crisis_reply (js ''fr'')))"
    using ex tr p kw by (simp add: try_attempt_def process_result_def)
  then have "chat_loop example_runtime (\<lambda>n. Returns (openai_result (js ''Take care''))) (js ''fr'') (js ''I feel hopeless'') 1 []
      = \<lparr>sent = json (crisis_reply (js ''fr'')), attempts = 1, slept = []\<rparr>"
    by (intro chat_loop_returns) (simp_all add: maxAttempts_def)
  then show ?thesis
    by (simp add: chat_configured [OF google_env_selected] lang_of_def json_def crisis_reply_def
          fallbackHelplines_def)
qed

lemma crisis_keyword_empty_reply:
  "get (body (sent (chat example_runtime google_env (\<lambda>n. Returns (JObj []))
      (Some (js ''en'')) (js ''I feel hopeless'')))) (js ''type'') = JStr (js ''reply'')"
proof -
  have "try_attempt example_runtime (\<lambda>n. Returns (JObj [])) (js ''en'') (js ''I feel hopeless'') 1
      = Some (json (empty_reply (js ''en'')))"
    by (simp add: try_attempt_def process_result_def extractReplyFromProviderObj_def gemini_text_def)
  then have "chat_loop example_runtime (\<lambda>n. Returns (JObj [])) (js ''en'') (js ''I feel hopeless'') 1 []
      = \<lparr>sent = json (empty_reply (js ''en'')), attempts = 1, slept = []\<rparr>"
    by (intro chat_loop_returns) (simp_all add: maxAttempts_def)
  then show ?thesis
    by (simp add: chat_configured [OF google_env_selected] lang_of_def json_def empty_reply_def)
qed

section \<open>The analysis proxy\<close>

text \<open>
  Claim C8. Without a file the handler answers with status 400 and the body
  \<open>{ error: 'No image' }\<close>. With a file, when the upstream service cannot be reached or
  answers with a status outside 200 to 299, the handler answers with status 200 and the
  fallback analysis of the language, whose recommendations are an array of one element.
\<close>

theorem analyze_no_file_or_upstream_down:
  "analyze False lang_field up = \<lparr>status = 400, body = JObj [(js ''error'', JStr (js ''No image''))]\<rparr>
   \<and> (up = Unreachable \<or> (\<exists>st b. up = Responded st b \<and> \<not> response_ok st) \<longrightarrow>
        status (analyze True lang_field up) = 200
        \<and> body (analyze True lang_field up) = fallback_analysis (lang_of lang_field)
        \<and> (\<exists>r. get (body (analyze True lang_field up)) (js ''recommendations'') = JArr [r]))"
  by (auto simp: analyze_def json_def fallback_analysis_def)

text \<open>
  The hypothesis of C8 holds for an upstream status 503.
\<close>

theorem analyze_no_file_or_upstream_down_witness:
  "analyze False (Some (js ''hi'')) (Responded 503 None)
     = \<lparr>status = 400, body = JObj [(js ''error'', JStr (js ''No image''))]\<rparr>
   \<and> \<not> response_ok 503
   \<and> status (analyze True (Some (js ''hi'')) (Responded 503 None)) = 200
   \<and> get (body (analyze True (Some (js ''hi'')) (Responded 503 None))) (js ''recommendations'')
       = JArr [JStr [2360, 2368, 2343, 2375, 32, 2352, 2361, 2375, 2306, 33]]"
proof -
  have nok: "\<not> response_ok 503" by (simp add: response_ok_def)
  then have up: "Responded 503 None = Unreachable
      \<or> (\<exists>st b. Responded 503 None = Responded st b \<and> \<not> response_ok st)"
    by simp
  show ?thesis
    using analyze_no_file_or_upstream_down [of "Some (js ''hi'')" "Responded 503 None"] up nok
    by (simp add: fallback_analysis_def lang_of_def)
qed

section \<open>The page\<close>

lemma bubble_fields [simp]:
  "chatHistory (bubble t c) = chatHistory c"
  "exerciseState (bubble t c) = exerciseState c"
  "msgContainer (bubble t c) = msgContainer c"
  "selectedLang (bubble t c) = selectedLang c"
  by (simp_all add: bubble_def)

lemma render_fields [simp]:
  "chatHistory (renderCurrentExerciseStep c) = chatHistory c"
  "exerciseState (renderCurrentExerciseStep c) = exerciseState c"
  by (simp_all add: renderCurrentExerciseStep_def Let_def split: option.splits)

lemma small_fields [simp]:
  "exerciseState (hideCrisis c) = exerciseState c"
  "exerciseState (appendUserBubble t c) = exerciseState c"
  "exerciseState (push r v c) = exerciseState c"
  "exerciseState (pop c) = exerciseState c"
  "exerciseState (on_error abort c) = exerciseState c"
  by (simp_all add: hideCrisis_def appendUserBubble_def push_def pop_def on_error_def)

lemma appendBotBubble_exercise:
  "appendBotBubble v c = Done c' \<or> appendBotBubble v c = Thrown c' \<Longrightarrow>
   exerciseState c' = exerciseState c"
  by (auto simp: appendBotBubble_def split: if_splits jsval.splits)

lemma showCrisis_exercise:
  "showCrisis hs c = Done c' \<or> showCrisis hs c = Thrown c' \<Longrightarrow> exerciseState c' = exerciseState c"
  by (auto simp: showCrisis_def split: if_splits)

lemma goToStep_exercise:
  "exerciseState c = Some e \<Longrightarrow>
   exerciseState (goToStep i c) = Some (e\<lparr>currentStep := max 0 (min (totalSteps e - 1) i)\<rparr>)"
  by (simp add: goToStep_def)

lemma clamp_keeps_inv:
  "exercise_inv e \<Longrightarrow> exercise_inv (e\<lparr>currentStep := max 0 (min (totalSteps e - 1) i)\<rparr>)"
  by (auto simp: exercise_inv_def split: jsval.splits)

lemma handleAnalysisResult_creates:
  assumes "get result (js ''recommendations'') = JArr (r # rs)"
    and "handleAnalysisResult rt result c = Done c'"
  shows "exerciseState c' =
           Some \<lparr>analysis = result, currentStep = 0, totalSteps = int (length (r # rs))\<rparr>"
proof -
  have t: "truthy result"
    using assms(1) by (cases result) simp_all
  show ?thesis
    using assms t
    by (auto simp: handleAnalysisResult_def Let_def and_then_def or_else_def
             split: if_splits run.splits)
qed

lemma handleAnalysisResult_thrown:
  "handleAnalysisResult rt result c = Thrown c' \<Longrightarrow> exerciseState c' = exerciseState c"
  by (auto simp: handleAnalysisResult_def Let_def and_then_def
           split: if_splits run.splits dest: appendBotBubble_exercise [OF disjI2])

lemma finish_exercise:
  assumes "finish v h c = Done c' \<or> finish v h c = Thrown c'"
  shows "exerciseState c' = exerciseState c"
proof (cases "appendBotBubble v c")
  case (Thrown c1)
  with assms show ?thesis
    using appendBotBubble_exercise [of v c c1] by (simp add: finish_def and_then_def)
next
  case (Done c1)
  then have c1: "exerciseState c1 = exerciseState c"
    using appendBotBubble_exercise [of v c c1] by simp
  show ?thesis
  proof (cases "isArray h \<and> length (elements h) > 0")
    case True
    with assms Done have "showCrisis (elements h) (push (js ''model'') v c1) = Done c'
        \<or> showCrisis (elements h) (push (js ''model'') v c1) = Thrown c'"
      by (simp add: finish_def and_then_def)
    from showCrisis_exercise [OF this] c1 show ?thesis by simp
  next
    case False
    with assms Done c1 show ?thesis
      by (auto simp: finish_def and_then_def)
  qed
qed

lemma handleAnalysisResult_keeps_ok:
  assumes "state_ok c"
    and "handleAnalysisResult rt result c = Done c' \<or> handleAnalysisResult rt result c = Thrown c'"
  shows "state_ok c'"
proof (cases "handleAnalysisResult rt result c")
  case (Thrown c1)
  with assms show ?thesis
    using handleAnalysisResult_thrown [of rt result c c1] by (simp add: state_ok_def)
next
  case (Done c1)
  with assms(2) have eq: "c' = c1" by simp
  let ?recs = "or_else (get result (js ''recommendations'')) (JArr [])"
  show ?thesis
  proof (cases "isArray ?recs \<and> length (elements ?recs) > 0")
    case True
    then obtain r rs where "?recs = JArr (r # rs)"
      by (cases ?recs; cases "elements ?recs") auto
    then have r: "get result (js ''recommendations'') = JArr (r # rs)"
      by (auto simp: or_else_def split: if_splits)
    from handleAnalysisResult_creates [OF r Done] r eq show ?thesis
      by (simp add: state_ok_def exercise_inv_def)
  next
    case False
    with Done assms(1) eq show ?thesis
      by (auto simp: handleAnalysisResult_def Let_def and_then_def state_ok_def
               split: if_splits run.splits dest: appendBotBubble_exercise [OF disjI1])
  qed
qed

lemma on_response_keeps_ok:
  assumes "state_ok c"
    and "on_response rt l p c = Done c' \<or> on_response rt l p c = Thrown c'"
  shows "state_ok c'"
proof -
  have fin: "state_ok c1 \<Longrightarrow> finish v h c1 = Done c' \<or> finish v h c1 = Thrown c' \<Longrightarrow> state_ok c'"
    for v h c1
    using finish_exercise [of v h c1 c'] by (simp add: state_ok_def)
  show ?thesis
  proof (cases "(case p of JObj kvs \<Rightarrow> True | JArr xs \<Rightarrow> True | _ \<Rightarrow> False)
      \<and> \<not> (get p (js ''type'') = JStr (js ''reply'') \<and> truthy (get p (js ''text'')))
      \<and> \<not> (get p (js ''type'') = JStr (js ''crisis'') \<and> truthy (get p (js ''text'')))
      \<and> get p (js ''type'') = JStr (js ''analysis'')")
    case True
    let ?v = "or_else (get p (js ''summary'')) (or_else (get p (js ''notes'')) (JStr (js ''Received analysis.'')))"
    from True assms(2) have run:
      "and_then (handleAnalysisResult rt p c) (finish ?v JNull) = Done c'
       \<or> and_then (handleAnalysisResult rt p c) (finish ?v JNull) = Thrown c'"
      by (simp add: on_response_def)
    show ?thesis
    proof (cases "handleAnalysisResult rt p c")
      case (Thrown c1)
      with run have "c' = c1" by (simp add: and_then_def)
      with Thrown assms(1) show ?thesis
        using handleAnalysisResult_keeps_ok [of c rt p c1] by simp
    next
      case (Done c1)
      with assms(1) have "state_ok c1"
        using handleAnalysisResult_keeps_ok [of c rt p c1] by simp
      moreover from run Done have "finish ?v JNull c1 = Done c' \<or> finish ?v JNull c1 = Thrown c'"
        by (simp add: and_then_def)
      ultimately show ?thesis by (rule fin)
    qed
  next
    case False
    with assms(2) obtain v h where "finish v h c = Done c' \<or> finish v h c = Thrown c'"
      by (auto simp: on_response_def split: if_splits)
    with assms(1) show ?thesis by (rule fin)
  qed
qed

lemma pop_push [simp]: "chatHistory (pop (push r v c)) = chatHistory c"
  by (simp add: pop_def push_def)

lemma pop_bubble_push [simp]: "chatHistory (pop (bubble t (push r v c))) = chatHistory c"
  by (simp add: pop_def push_def bubble_def)

lemma on_error_push [simp]: "chatHistory (on_error abort (push r v c)) = chatHistory c"
  by (simp add: on_error_def pop_def push_def bubble_def)

lemma push_history: "chatHistory (push r v c) = chatHistory c @ [\<lparr>role = r, parts = v\<rparr>]"
  by (simp add: push_def)

lemma before_send_fields [simp]:
  "chatHistory (appendUserBubble t (hideCrisis c)) = chatHistory c"
  "msgContainer (push r v (appendUserBubble t (hideCrisis c))) = msgContainer c"
  by (simp_all add: appendUserBubble_def hideCrisis_def push_def)

lemma sendMessage_keeps_ok:
  assumes "state_ok c"
  shows "state_ok (sendMessage rt t f c)"
proof -
  let ?c1 = "push (js ''user'') (JStr t) (appendUserBubble t (hideCrisis c))"
  have c1: "state_ok ?c1"
    using assms by (simp add: state_ok_def)
  have err: "state_ok (on_error b ?c1)" for b
    using assms by (simp add: state_ok_def)
  have resp: "state_ok (case on_response rt l p ?c1 of Done c2 \<Rightarrow> c2 | Thrown c2 \<Rightarrow> on_error False c2)" for l p
  proof (cases "on_response rt l p ?c1")
    case (Done c2)
    with on_response_keeps_ok [OF c1, of rt l p c2] show ?thesis by simp
  next
    case (Thrown c2)
    with on_response_keeps_ok [OF c1, of rt l p c2] show ?thesis by (simp add: state_ok_def)
  qed
  have nonok: "state_ok (pop (bubble s ?c1))" for s
    using assms by (simp add: state_ok_def)
  show ?thesis
    using assms c1 err resp nonok
    by (auto simp: sendMessage_def Let_def split: fetched.splits option.splits)
qed

lemma completeExercise_eq:
  "exerciseState c = Some e \<Longrightarrow>
   completeExercise rt c =
     (bubble (completion_message rt (selectedLang c) (totalSteps e)
        (or_else (get (analysis e) (js ''score'')) (JNum 0))) c)\<lparr>exerciseState := None\<rparr>"
  by (cases "analysis e") (simp_all add: completeExercise_def or_else_def)

lemma completeExercise_keeps_ok: "state_ok (completeExercise rt c)"
  by (cases "exerciseState c") (simp_all add: completeExercise_eq state_ok_def completeExercise_def)

lemma goToStep_keeps_ok: "state_ok c \<Longrightarrow> state_ok (goToStep i c)"
  using goToStep_exercise [of c _ i] clamp_keeps_inv
  by (cases "exerciseState c") (auto simp: state_ok_def goToStep_def)

lemma analysed: "handleAnalysisResult example_runtime two_steps fresh_page = Done analysed_page"
  unfolding analysed_page_def by code_simp

text \<open>
  Claim C5. An analysis with a non-empty recommendations array that \<open>handleAnalysisResult\<close>
  processes to its end creates the exercise \<open>{ analysis, currentStep: 0, totalSteps: N }\<close>
  with \<open>N\<close> the length of the recommendations, which satisfies the invariant
  \<open>0 \<le> currentStep < totalSteps\<close> and \<open>totalSteps = length recommendations\<close>. On an exercise
  that satisfies the invariant, \<open>goToStep\<close> with any index sets the current step to the index
  clamped into \<open>[0, totalSteps - 1]\<close>, changes nothing else and keeps the invariant. Hence
  the Next and Prev buttons of any rendered step keep it, and so do \<open>completeExercise\<close>,
  \<open>sendMessage\<close> and \<open>handleAnalysisResult\<close>, whether it completes or throws.
\<close>

theorem exercise_step_in_range:
  "(get result (js ''recommendations'') = JArr (r # rs) \<and> handleAnalysisResult rt result c = Done c'
      \<longrightarrow> exerciseState c' =
            Some \<lparr>analysis = result, currentStep = 0, totalSteps = int (length (r # rs))\<rparr>
          \<and> exercise_inv \<lparr>analysis = result, currentStep = 0, totalSteps = int (length (r # rs))\<rparr>)
   \<and> (exerciseState c = Some e \<and> exercise_inv e
      \<longrightarrow> (\<exists>e'. exerciseState (goToStep newIndex c) = Some e' \<and> exercise_inv e'
                \<and> currentStep e' = max 0 (min (totalSteps e - 1) newIndex)
                \<and> 0 \<le> currentStep e' \<and> currentStep e' \<le> totalSteps e - 1
                \<and> totalSteps e' = totalSteps e \<and> analysis e' = analysis e))
   \<and> (state_ok c
      \<longrightarrow> state_ok (next_click idx c) \<and> state_ok (prev_click idx c) \<and> state_ok (goToStep newIndex c)
          \<and> state_ok (completeExercise rt c) \<and> state_ok (sendMessage rt t f c)
          \<and> (handleAnalysisResult rt result c = Done c' \<or> handleAnalysisResult rt result c = Thrown c'
              \<longrightarrow> state_ok c'))"
proof (intro conjI impI)
  assume a: "get result (js ''recommendations'') = JArr (r # rs) \<and> handleAnalysisResult rt result c = Done c'"
  then show "exerciseState c' = Some \<lparr>analysis = result, currentStep = 0, totalSteps = int (length (r # rs))\<rparr>"
    using handleAnalysisResult_creates by blast
  from a show "exercise_inv \<lparr>analysis = result, currentStep = 0, totalSteps = int (length (r # rs))\<rparr>"
    by (simp add: exercise_inv_def)
next
  assume b: "exerciseState c = Some e \<and> exercise_inv e"
  then have inv: "exercise_inv e" and st: "exerciseState c = Some e" by simp_all
  have "1 \<le> totalSteps e" using inv by (simp add: exercise_inv_def)
  then show "\<exists>e'. exerciseState (goToStep newIndex c) = Some e' \<and> exercise_inv e'
                \<and> currentStep e' = max 0 (min (totalSteps e - 1) newIndex)
                \<and> 0 \<le> currentStep e' \<and> currentStep e' \<le> totalSteps e - 1
                \<and> totalSteps e' = totalSteps e \<and> analysis e' = analysis e"
    using goToStep_exercise [OF st, of newIndex] clamp_keeps_inv [OF inv, of newIndex]
    by simp
next
  assume ok: "state_ok c"
  then show "state_ok (next_click idx c)" "state_ok (prev_click idx c)" "state_ok (goToStep newIndex c)"
    by (simp_all add: next_click_def prev_click_def goToStep_keeps_ok)
  show "state_ok (completeExercise rt c)"
    by (rule completeExercise_keeps_ok)
  show "state_ok (sendMessage rt t f c)"
    using ok by (rule sendMessage_keeps_ok)
  assume "handleAnalysisResult rt result c = Done c' \<or> handleAnalysisResult rt result c = Thrown c'"
  with ok show "state_ok c'"
    by (rule handleAnalysisResult_keeps_ok)
qed

text \<open>
  The hypotheses of C5 hold for the analysis with the two steps "Sit straight" and
  "Relax shoulders" on a fresh page.
\<close>

theorem exercise_step_in_range_witness:
  "handleAnalysisResult example_runtime two_steps fresh_page = Done analysed_page
   \<and> exerciseState analysed_page = Some \<lparr>analysis = two_steps, currentStep = 0, totalSteps = 2\<rparr>
   \<and> exercise_inv \<lparr>analysis = two_steps, currentStep = 0, totalSteps = 2\<rparr>
   \<and> state_ok analysed_page
   \<and> (\<exists>e'. exerciseState (goToStep 5 analysed_page) = Some e' \<and> currentStep e' = 1 \<and> totalSteps e' = 2)
   \<and> state_ok (next_click 1 analysed_page)
   \<and> state_ok (prev_click 0 analysed_page)
   \<and> state_ok (sendMessage example_runtime (js ''hello'') NetworkError analysed_page)"
proof -
  let ?e = "\<lparr>analysis = two_steps, currentStep = 0, totalSteps = 2\<rparr>"
  have r: "get two_steps (js ''recommendations'') = JArr (JStr (js ''Sit straight'') # [JStr (js ''Relax shoulders'')])"
    by (simp add: two_steps_def)
  note T = exercise_step_in_range [where result = two_steps and r = "JStr (js ''Sit straight'')"
      and rs = "[JStr (js ''Relax shoulders'')]" and rt = example_runtime and c = fresh_page
      and c' = analysed_page]
  from T r analysed have c: "exerciseState analysed_page = Some ?e" and inv: "exercise_inv ?e"
    by simp_all
  then have ok: "state_ok analysed_page"
    by (simp add: state_ok_def)
  note U = exercise_step_in_range [where result = two_steps and r = "JStr (js ''Sit straight'')"
      and rs = "[JStr (js ''Relax shoulders'')]" and rt = example_runtime and c = analysed_page
      and c' = analysed_page and e = ?e and newIndex = 5 and idx = 1 and t = "js ''hello''"
      and f = NetworkError]
  note V = exercise_step_in_range [where result = two_steps and r = "JStr (js ''Sit straight'')"
      and rs = "[JStr (js ''Relax shoulders'')]" and rt = example_runtime and c = analysed_page
      and c' = analysed_page and e = ?e and newIndex = 5 and idx = 0 and t = "js ''hello''"
      and f = NetworkError]
  from U c inv ok have "\<exists>e'. exerciseState (goToStep 5 analysed_page) = Some e' \<and> currentStep e' = 1 \<and> totalSteps e' = 2"
    and "state_ok (next_click 1 analysed_page)"
    and "state_ok (sendMessage example_runtime (js ''hello'') NetworkError analysed_page)"
    by auto
  moreover from V ok have "state_ok (prev_click 0 analysed_page)"
    by blast
  ultimately show ?thesis
    using c inv ok analysed by simp
qed

text \<open>
  Claim C6. With an exercise in progress on a page that has the message container,
  \<open>completeExercise\<close> clears the exercise and appends one bubble, the completion message.
  On a page in Hindi the message is the Hindi sentence, on any other page the English
  "Exercise complete! N steps done. Final score: S/100. Great job!"; in both, \<open>N\<close> is the
  decimal numeral of \<open>totalSteps\<close> and \<open>S\<close> is the score of the analysis converted to a
  string (0 when the analysis has no truthy score; a numeric score is printed as it is).
\<close>

theorem complete_exercise_reports_steps_and_score:
  assumes "exerciseState c = Some e" and "msgContainer c"
  shows "exerciseState (completeExercise rt c) = None
     \<and> ui (completeExercise rt c) = ui c @
         [BotBubble (completion_message rt (selectedLang c) (totalSteps e)
            (or_else (get (analysis e) (js ''score'')) (JNum 0)))]
     \<and> (\<forall>q. get (analysis e) (js ''score'') = JNum q \<longrightarrow>
          ui (completeExercise rt c) = ui c @
            [BotBubble (completion_message rt (selectedLang c) (totalSteps e) (JNum q))])
     \<and> completion_message rt (js ''en'') n v
         = js ''Exercise complete! '' @ show_int n @ js '' steps done. Final score: ''
           @ toStr rt v @ js ''/100. Great job!''
     \<and> ui (completeExercise rt c) = ui c @
         [BotBubble
           (if selectedLang c = js ''hi''
            then [2309, 2349, 2381, 2351, 2366, 2360, 32, 2346, 2370, 2352, 2366, 33, 32]
                 @ show_int (totalSteps e)
                 @ [32, 2325, 2342, 2350, 32, 2346, 2370, 2352, 2375, 2404, 32, 2309, 2306, 2340,
                    2367, 2350, 32, 2360, 2381, 2325, 2379, 2352, 58, 32]
                 @ toStr rt (if truthy (get (analysis e) (js ''score''))
                             then get (analysis e) (js ''score'') else JNum 0)
                 @ [47, 49, 48, 48, 2404, 32, 2358, 2366, 2344, 2342, 2366, 2352, 33]
            else js ''Exercise complete! '' @ show_int (totalSteps e)
                 @ js '' steps done. Final score: ''
                 @ toStr rt (if truthy (get (analysis e) (js ''score''))
                             then get (analysis e) (js ''score'') else JNum 0)
                 @ js ''/100. Great job!'')]
     \<and> (\<forall>q. get (analysis e) (js ''score'') = JNum q \<longrightarrow>
          ui (completeExercise rt c) = ui c @
            [BotBubble
              (if selectedLang c = js ''hi''
               then [2309, 2349, 2381, 2351, 2366, 2360, 32, 2346, 2370, 2352, 2366, 33, 32]
                    @ show_int (totalSteps e)
                    @ [32, 2325, 2342, 2350, 32, 2346, 2370, 2352, 2375, 2404, 32, 2309, 2306,
                       2340, 2367, 2350, 32, 2360, 2381, 2325, 2379, 2352, 58, 32]
                    @ Number_toString rt q
                    @ [47, 49, 48, 48, 2404, 32, 2358, 2366, 2344, 2342, 2366, 2352, 33]
               else js ''Exercise complete! '' @ show_int (totalSteps e)
                    @ js '' steps done. Final score: '' @ Number_toString rt q
                    @ js ''/100. Great job!'')])"
proof -
  have eq: "completeExercise rt c =
     (bubble (completion_message rt (selectedLang c) (totalSteps e)
        (or_else (get (analysis e) (js ''score'')) (JNum 0))) c)\<lparr>exerciseState := None\<rparr>"
    using assms(1) by (rule completeExercise_eq)
  have ui: "ui (completeExercise rt c) = ui c @
         [BotBubble (completion_message rt (selectedLang c) (totalSteps e)
            (or_else (get (analysis e) (js ''score'')) (JNum 0)))]"
    unfolding eq using assms(2) by (simp add: bubble_def)
  have none: "exerciseState (completeExercise rt c) = None"
    unfolding eq by simp
  have num: "or_else (JNum q) (JNum 0) = JNum q" for q
    by (simp add: or_else_def)
  have en: "completion_message rt (js ''en'') n v
         = js ''Exercise complete! '' @ show_int n @ js '' steps done. Final score: ''
           @ toStr rt v @ js ''/100. Great job!''"
    by (simp add: completion_message_def)
  show ?thesis
    apply (intro conjI allI impI)
    subgoal by (rule none)
    subgoal by (rule ui)
    subgoal using ui num by simp
    subgoal by (rule en)
    subgoal unfolding ui by (simp add: completion_message_def or_else_def)
    subgoal unfolding ui by (simp add: completion_message_def or_else_def)
    done
qed

text \<open>
  The scenario of C6: the recommendations "Sit straight" and "Relax shoulders" arrive, the
  user clicks Next on the first step and then Complete. The last bubble reports 2 steps and
  the score 72, in English and, on the same page switched to Hindi, in Hindi.
\<close>

theorem complete_exercise_reports_steps_and_score_witness:
  "exerciseState (next_click 0 analysed_page)
     = Some \<lparr>analysis = two_steps, currentStep = 1, totalSteps = 2\<rparr>
   \<and> msgContainer (next_click 0 analysed_page)
   \<and> exerciseState (completeExercise example_runtime (next_click 0 analysed_page)) = None
   \<and> ui (completeExercise example_runtime (next_click 0 analysed_page))
       = ui (next_click 0 analysed_page)
         @ [BotBubble (js ''Exercise complete! 2 steps done. Final score: 72/100. Great job!'')]
   \<and> ui (completeExercise example_runtime ((next_click 0 analysed_page)\<lparr>selectedLang := js ''hi''\<rparr>))
       = ui (next_click 0 analysed_page)
         @ [BotBubble ([2309, 2349, 2381, 2351, 2366, 2360, 32, 2346, 2370, 2352, 2366, 33, 32]
              @ js ''2''
              @ [32, 2325, 2342, 2350, 32, 2346, 2370, 2352, 2375, 2404, 32, 2309, 2306, 2340,
                 2367, 2350, 32, 2360, 2381, 2325, 2379, 2352, 58, 32]
              @ js ''72''
              @ [47, 49, 48, 48, 2404, 32, 2358, 2366, 2344, 2342, 2366, 2352, 33])]"
proof -
  let ?c = "next_click 0 analysed_page"
  let ?h = "(next_click 0 analysed_page)\<lparr>selectedLang := js ''hi''\<rparr>"
  let ?e = "\<lparr>analysis = two_steps, currentStep = 1, totalSteps = 2\<rparr>"
  have st: "exerciseState ?c = Some ?e"
    by code_simp
  have mc: "msgContainer ?c"
    by code_simp
  have lang: "selectedLang ?c = js ''en''"
    by code_simp
  have sth: "exerciseState ?h = Some ?e"
    using st by simp
  have mch: "msgContainer ?h"
    using mc by simp
  have steps: "show_int 2 = js ''2''"
    by code_simp
  have sc: "get two_steps (js ''score'') = JNum 72"
    by (simp add: two_steps_def)
  have score: "Number_toString example_runtime 72 = js ''72''"
    by code_simp
  have score': "toStr example_runtime (JNum 72) = js ''72''"
    using score by simp
  note T = complete_exercise_reports_steps_and_score [OF st mc, where rt = example_runtime]
  note T5 = T [THEN conjunct2, THEN conjunct2, THEN conjunct2, THEN conjunct2, THEN conjunct1]
  have en: "ui (completeExercise example_runtime ?c) = ui ?c
         @ [BotBubble (js ''Exercise complete! 2 steps done. Final score: 72/100. Great job!'')]"
    using T5 lang steps sc score' by simp
  note H = complete_exercise_reports_steps_and_score [OF sth mch, where rt = example_runtime]
  note H5 = H [THEN conjunct2, THEN conjunct2, THEN conjunct2, THEN conjunct2, THEN conjunct1]
  have hi: "ui (completeExercise example_runtime ?h) = ui ?c
         @ [BotBubble ([2309, 2349, 2381, 2351, 2366, 2360, 32, 2346, 2370, 2352, 2366, 33, 32]
              @ js ''2''
              @ [32, 2325, 2342, 2350, 32, 2346, 2370, 2352, 2375, 2404, 32, 2309, 2306, 2340,
                 2367, 2350, 32, 2360, 2381, 2325, 2379, 2352, 58, 32]
              @ js ''72''
              @ [47, 49, 48, 48, 2404, 32, 2358, 2366, 2344, 2342, 2366, 2352, 33])]"
    using H5 steps sc score' by simp
  have none: "exerciseState (completeExercise example_runtime ?c) = None"
    by (rule T [THEN conjunct1])
  show ?thesis
    by (intro conjI) (rule st mc none en hi)+
qed

text \<open>
  Claim C7. \<open>sendMessage\<close> with a non-empty text on a page with the message container
  appends the user turn to the transcript; when the request is aborted by the 30-second
  timer, fails on the network, gets a response with a status outside 200 to 299, or gets a
  body that cannot be read or parsed, the turn is removed again: the transcript, and so its
  length, is what it was before the call.
\<close>

theorem failed_send_rolls_back:
  assumes "t \<noteq> []" and "msgContainer c"
    and "f = Aborted \<or> f = NetworkError \<or> (\<exists>st b. f = Resolved st b \<and> \<not> response_ok st)
         \<or> (\<exists>st. f = Resolved st None)
         \<or> (\<exists>st raw. f = Resolved st (Some raw) \<and> JSON_parse rt raw = None)"
  shows "chatHistory (push (js ''user'') (JStr t) (appendUserBubble t (hideCrisis c)))
           = chatHistory c @ [\<lparr>role = js ''user'', parts = JStr t\<rparr>]
     \<and> chatHistory (sendMessage rt t f c) = chatHistory c
     \<and> length (chatHistory (sendMessage rt t f c)) = length (chatHistory c)"
proof -
  have "chatHistory (sendMessage rt t f c) = chatHistory c"
    using assms by (auto simp: sendMessage_def Let_def)
  then show ?thesis by (simp add: push_history)
qed

text \<open>
  The hypotheses of C7 hold for a response with status 500 on the page of the scenario,
  whose transcript has one turn.
\<close>

theorem failed_send_rolls_back_witness:
  "msgContainer analysed_page \<and> \<not> response_ok 500
   \<and> chatHistory (sendMessage example_runtime (js ''hello'') (Resolved 500 (Some (js ''oops''))) analysed_page)
       = chatHistory analysed_page
   \<and> length (chatHistory (sendMessage example_runtime (js ''hello'') (Resolved 500 (Some (js ''oops''))) analysed_page))
       = 1"
proof -
  have t: "js ''hello'' \<noteq> []" by simp
  have mc: "msgContainer analysed_page" by code_simp
  have nok: "\<not> response_ok 500" by (simp add: response_ok_def)
  have f: "Resolved 500 (Some (js ''oops'')) = Aborted \<or> Resolved 500 (Some (js ''oops'')) = NetworkError
           \<or> (\<exists>st b. Resolved 500 (Some (js ''oops'')) = Resolved st b \<and> \<not> response_ok st)
           \<or> (\<exists>st. Resolved 500 (Some (js ''oops'')) = Resolved st None)
           \<or> (\<exists>st raw. Resolved 500 (Some (js ''oops'')) = Resolved st (Some raw)
                 \<and> JSON_parse example_runtime raw = None)"
    using nok by simp
  have len: "length (chatHistory analysed_page) = 1" by code_simp
  show ?thesis
    using failed_send_rolls_back [OF t mc f] mc nok len by simp
qed

end
